theory Spec2Isabelle
  imports Complex_Main
begin

section \<open>Errors and arrays\<close>

text \<open>
  The Python exceptions the two modelled functions can raise.  The specification gives
  them its own names: the \<open>IndexError\<close> of the grid lookup is its \<open>NoMatchError\<close>, the
  \<open>AssertionError\<close> of the visit check its \<open>CoverageError\<close>, the \<open>AssertionError\<close> of the
  shape check on a loaded model bank its \<open>ShapeMismatchError\<close>.  An \<open>AssertionError\<close>
  carries the message of its \<open>assert\<close>.  \<open>ConfigError\<close> is the specification's name
  for the failure of the parameter grid builder.
\<close>

datatype error =
    IndexError | ValueError | AssertionError string | FileNotFoundError | ConfigError

text \<open>
  A row of the parameter grid or of the winning parameters: x position, y position, size.
  Floating-point numbers are idealised as reals throughout.
\<close>

type_synonym prm = "real \<times> real \<times> real"

text \<open>
  A two-dimensional array with its second dimension, and a three-dimensional one with its
  second and third: numpy keeps these also when the first dimension is 0.
\<close>

record ary2d =
  ncol :: nat
  rows :: "real list list"

record ary3d =
  dim1 :: nat
  dim2 :: nat
  mats :: "real list list list"

section \<open>Fitted time courses: \<open>save_tc_to_nii\<close>\<close>

subsection \<open>The grid lookup\<close>

text \<open>\<open>np.isclose(a, b, rtol, atol)\<close> on finite numbers.\<close>

definition np_isclose :: "real \<Rightarrow> real \<Rightarrow> real \<Rightarrow> real \<Rightarrow> bool" where
  "np_isclose a b rtol atol \<longleftrightarrow> \<bar>a - b\<bar> \<le> atol + rtol * \<bar>b\<bar>"

text \<open>
  One entry of \<open>np.isclose(aryMdlParams, vecPrm, atol=1e-04).all(axis=1)\<close>; \<open>rtol\<close> keeps
  its default \<open>1e-05\<close>.
\<close>

definition isclose_all :: "prm \<Rightarrow> prm \<Rightarrow> bool" where
  "isclose_all mdl vecPrm =
     (case mdl of (a1, a2, a3) \<Rightarrow> case vecPrm of (b1, b2, b3) \<Rightarrow>
        np_isclose a1 b1 (1 / 100000) (1 / 10000) \<and>
        np_isclose a2 b2 (1 / 100000) (1 / 10000) \<and>
        np_isclose a3 b3 (1 / 100000) (1 / 10000))"

text \<open>\<open>np.where(lgc)[0]\<close>: the indices of the true entries, ascending.\<close>

definition np_where :: "bool list \<Rightarrow> nat list" where
  "np_where lgc = filter (\<lambda>i. lgc ! i) [0..<length lgc]"

text \<open>
  \<open>lgcMdl = np.where(np.isclose(aryMdlParams, vecPrm, atol=1e-04).all(axis=1))[0][0]\<close>.
  The last \<open>[0]\<close> raises \<open>IndexError\<close> on an empty index array and yields its first entry,
  an integer, otherwise.  The value is given the type of a Python variable that the
  source tests with \<open>is None\<close>: \<open>None\<close>, or \<open>Some\<close> integer.
\<close>

definition find_mdl :: "prm list \<Rightarrow> prm \<Rightarrow> error + nat option" where
  "find_mdl aryMdlParams vecPrm =
     (case np_where (map (\<lambda>mdl. isclose_all mdl vecPrm) aryMdlParams) of
        [] \<Rightarrow> Inl IndexError
      | lgcMdl # _ \<Rightarrow> Inr (Some lgcMdl))"

subsection \<open>Indexing with a logical mask\<close>

text \<open>\<open>vec[lgc] += 1\<close>, for a mask as long as the vector.\<close>

definition mask_incr :: "bool list \<Rightarrow> nat list \<Rightarrow> nat list" where
  "mask_incr lgc vec = map (\<lambda>(b, c). if b then c + 1 else c) (zip lgc vec)"

text \<open>\<open>ary[lgc, :]\<close>: the rows at the true entries.\<close>

definition mask_select :: "bool list \<Rightarrow> 'a list \<Rightarrow> 'a list" where
  "mask_select lgc ary = map snd (filter fst (zip lgc ary))"

text \<open>\<open>ary[lgc, :] = new\<close>: the rows at the true entries are replaced, in order.\<close>

fun mask_assign :: "bool list \<Rightarrow> 'a list \<Rightarrow> 'a list \<Rightarrow> 'a list" where
  "mask_assign (True # lgc) (x # ary) (v # new) = v # mask_assign lgc ary new"
| "mask_assign (False # lgc) (x # ary) new = x # mask_assign lgc ary new"
| "mask_assign lgc ary new = ary"

subsection \<open>Weights times model time courses\<close>

text \<open>
  One row of \<open>np.dot(aryWeights, aryMdlTc)\<close>: entry \<open>t\<close> is the sum over the kernels \<open>k\<close>
  of \<open>w[k] * aryMdlTc[k, t]\<close>.
\<close>

definition dot_row :: "nat \<Rightarrow> real list list \<Rightarrow> real list \<Rightarrow> real list" where
  "dot_row T aryMdlTc w =
     map (\<lambda>t. sum_list (map (\<lambda>(wk, mk). wk * mk ! t) (zip w aryMdlTc))) [0..<T]"

text \<open>
  \<open>np.dot\<close> of an array with \<open>K\<close> columns and one with \<open>K'\<close> rows and \<open>T\<close> columns raises
  \<open>ValueError\<close> unless \<open>K = K'\<close>.
\<close>

definition np_dot :: "nat \<Rightarrow> real list list \<Rightarrow> nat \<Rightarrow> nat \<Rightarrow> real list list
    \<Rightarrow> error + real list list" where
  "np_dot K aryWeights K' T aryMdlTc =
     (if K \<noteq> K' then Inl ValueError else Inr (map (dot_row T aryMdlTc) aryWeights))"

subsection \<open>The loop over the distinct winning parameters\<close>

record fit_st =
  vecVxlTst :: "nat list"
  aryFitTc :: "real list list"
  stdout :: "string list"

text \<open>
  What the body does with \<open>None\<close> for \<open>lgcMdl\<close>, from \<open>aryMdlTc = aryPrfTc[lgcMdl, :, :]\<close>
  on.  An index \<open>None\<close> inserts an axis: \<open>aryMdlTc\<close> is the whole bank, of shape
  \<open>(1, M, K, T)\<close>, and \<open>np.dot\<close> of the \<open>s\<close> selected weight rows with it has shape
  \<open>(s, 1, M, T)\<close>, or raises \<open>ValueError\<close> if the weights do not have \<open>K\<close> columns.  The
  assignment to the \<open>s\<close> selected rows of \<open>aryFitTc\<close> reshapes the product to \<open>(M, T)\<close>,
  which needs \<open>s * M * T = M * T\<close>, and broadcasts that to \<open>(s, T)\<close>, which needs \<open>M = s\<close> or
  \<open>M = 1\<close>; otherwise it raises \<open>ValueError\<close>.  Where it succeeds and the rows have entries,
  one voxel is selected and the bank has one model.
\<close>

definition fit_none :: "ary2d \<Rightarrow> ary3d \<Rightarrow> bool list \<Rightarrow> real list list
    \<Rightarrow> error + real list list" where
  "fit_none aryBetas aryPrfTc lgcVxl aryFit =
     (let aryWeights = mask_select lgcVxl (rows aryBetas);
          s = length aryWeights;
          M = length (mats aryPrfTc);
          T = dim2 aryPrfTc
      in if ncol aryBetas \<noteq> dim1 aryPrfTc then Inl ValueError
         else if s * M * T = M * T \<and> (M = s \<or> M = 1) then
           Inr (if s = 1 \<and> M = 1
                then mask_assign lgcVxl aryFit [dot_row T (mats aryPrfTc ! 0) (aryWeights ! 0)]
                else aryFit)
         else Inl ValueError)"

text \<open>
  The body of \<open>for indRow, vecPrm in enumerate(aryUnqRows)\<close>: what has been printed when
  it ends or raises, and the arrays it leaves or the exception it raises.  A logical mask
  whose length differs from the first dimension of the indexed array raises
  \<open>IndexError\<close>; \<open>aryFitTc\<close> has as many rows as \<open>vecVxlTst\<close> has entries, so the check made
  for \<open>vecVxlTst\<close> covers it.  The assignment to \<open>aryFitTc\<close> rounds to \<open>float32\<close> in the
  source; here it is exact.
\<close>

definition fit_body :: "ary2d \<Rightarrow> prm list \<Rightarrow> ary3d \<Rightarrow> nat list \<Rightarrow> nat \<Rightarrow> prm \<Rightarrow> fit_st
    \<Rightarrow> string list \<times> (error + fit_st)" where
  "fit_body aryBetas aryMdlParams aryPrfTc aryUnqInd indRow vecPrm st =
     (let lgcVxl = map (\<lambda>u. u = indRow) aryUnqInd;
          out = (if list_all Not lgcVxl then stdout st @ [''---No voxel found'']
                 else stdout st)
      in case find_mdl aryMdlParams vecPrm of
           Inl e \<Rightarrow> (out, Inl e)
         | Inr lgcMdl \<Rightarrow>
             (let out = (if lgcMdl = None then out @ [''---No model found''] else out)
              in (out,
                  if length lgcVxl \<noteq> length (vecVxlTst st) then Inl IndexError
                  else
                    (case lgcMdl of
                       Some m \<Rightarrow>
                         if length (mats aryPrfTc) \<le> m then Inl IndexError
                         else if length lgcVxl \<noteq> length (rows aryBetas) then Inl IndexError
                         else
                           (case np_dot (ncol aryBetas) (mask_select lgcVxl (rows aryBetas))
                                   (dim1 aryPrfTc) (dim2 aryPrfTc) (mats aryPrfTc ! m) of
                              Inl e \<Rightarrow> Inl e
                            | Inr aryNew \<Rightarrow>
                                Inr \<lparr>vecVxlTst = mask_incr lgcVxl (vecVxlTst st),
                                     aryFitTc = mask_assign lgcVxl (aryFitTc st) aryNew,
                                     stdout = out\<rparr>)
                     | None \<Rightarrow>
                         if length lgcVxl \<noteq> length (rows aryBetas) then Inl IndexError
                         else
                           (case fit_none aryBetas aryPrfTc lgcVxl (aryFitTc st) of
                              Inl e \<Rightarrow> Inl e
                            | Inr aryFit \<Rightarrow>
                                Inr \<lparr>vecVxlTst = mask_incr lgcVxl (vecVxlTst st),
                                     aryFitTc = aryFit,
                                     stdout = out\<rparr>)))))"

text \<open>The arrays one pass of the body leaves, or the exception it raises.\<close>

definition fit_row :: "ary2d \<Rightarrow> prm list \<Rightarrow> ary3d \<Rightarrow> nat list \<Rightarrow> nat \<Rightarrow> prm \<Rightarrow> fit_st
    \<Rightarrow> error + fit_st" where
  "fit_row aryBetas aryMdlParams aryPrfTc aryUnqInd indRow vecPrm st =
     snd (fit_body aryBetas aryMdlParams aryPrfTc aryUnqInd indRow vecPrm st)"

fun fit_loop :: "ary2d \<Rightarrow> prm list \<Rightarrow> ary3d \<Rightarrow> nat list \<Rightarrow> nat \<Rightarrow> prm list \<Rightarrow> fit_st
    \<Rightarrow> error + fit_st" where
  "fit_loop aryBetas aryMdlParams aryPrfTc aryUnqInd indRow [] st = Inr st"
| "fit_loop aryBetas aryMdlParams aryPrfTc aryUnqInd indRow (vecPrm # aryUnqRows) st =
     (case fit_row aryBetas aryMdlParams aryPrfTc aryUnqInd indRow vecPrm st of
        Inl e \<Rightarrow> Inl e
      | Inr st' \<Rightarrow>
          fit_loop aryBetas aryMdlParams aryPrfTc aryUnqInd (Suc indRow) aryUnqRows st')"

text \<open>What the loop has printed when it ends or raises.\<close>

fun fit_loop_out :: "ary2d \<Rightarrow> prm list \<Rightarrow> ary3d \<Rightarrow> nat list \<Rightarrow> nat \<Rightarrow> prm list \<Rightarrow> fit_st
    \<Rightarrow> string list" where
  "fit_loop_out aryBetas aryMdlParams aryPrfTc aryUnqInd indRow [] st = stdout st"
| "fit_loop_out aryBetas aryMdlParams aryPrfTc aryUnqInd indRow (vecPrm # aryUnqRows) st =
     (case fit_body aryBetas aryMdlParams aryPrfTc aryUnqInd indRow vecPrm st of
        (out, Inl e) \<Rightarrow> out
      | (out, Inr st') \<Rightarrow>
          fit_loop_out aryBetas aryMdlParams aryPrfTc aryUnqInd (Suc indRow) aryUnqRows st')"

text \<open>The arrays as initialised before the loop.\<close>

definition fit_init :: "prm list \<Rightarrow> ary3d \<Rightarrow> fit_st" where
  "fit_init aryIntGssPrm aryPrfTc =
     \<lparr>vecVxlTst = replicate (length aryIntGssPrm) 0,
      aryFitTc = replicate (length aryIntGssPrm) (replicate (dim2 aryPrfTc) 0),
      stdout = []\<rparr>"

definition errMsg :: string where
  "errMsg = ''At least one voxel visited more than once for SStot calc''"

text \<open>
  The section "Derive fitted time course models for all voxels" of \<open>save_tc_to_nii\<close>,
  from the arrays the earlier sections load and the result of \<open>fnd_unq_rws\<close>:
  initialisation, loop, and \<open>assert len(vecVxlTst) == np.sum(vecVxlTst)\<close>.
  \<open>aryPrfTc\<close> is the model bank after \<open>prep_models\<close>.
\<close>

definition derive_fit_tc :: "prm list \<Rightarrow> ary2d \<Rightarrow> prm list \<Rightarrow> ary3d \<Rightarrow> prm list \<Rightarrow> nat list
    \<Rightarrow> error + fit_st" where
  "derive_fit_tc aryIntGssPrm aryBetas aryMdlParams aryPrfTc aryUnqRows aryUnqInd =
     (case fit_loop aryBetas aryMdlParams aryPrfTc aryUnqInd 0 aryUnqRows
             (fit_init aryIntGssPrm aryPrfTc) of
        Inl e \<Rightarrow> Inl e
      | Inr st \<Rightarrow>
          if length (vecVxlTst st) = sum_list (vecVxlTst st) then Inr st
          else Inl (AssertionError errMsg))"


subsection \<open>Distinct rows of the winning parameters\<close>

fun index_of :: "'a list \<Rightarrow> 'a \<Rightarrow> nat" where
  "index_of [] x = 0"
| "index_of (y # ys) x = (if x = y then 0 else Suc (index_of ys x))"

text \<open>
  Modelled from the spec: \<open>fnd_unq_rws\<close> of \<open>model_creation_utils\<close> is not among the
  sources.  The specification has it "compute the set of distinct rows in
  WinningParameterSet (grouping equal rows together)" and, "for each distinct parameter
  triple, the index set of voxels sharing it".  As called, with \<open>return_index=False\<close> and
  \<open>return_inverse=True\<close>, it returns the distinct rows and, for every row of its
  argument, the index of that row among the distinct ones.
\<close>

definition fnd_unq_rws :: "prm list \<Rightarrow> prm list \<times> nat list" where
  "fnd_unq_rws A = (let aryUnqRows = remdups A in (aryUnqRows, map (index_of aryUnqRows) A))"

text \<open>
  \<open>save_tc_to_nii\<close> from the loaded arrays on: the winning parameters and weights of the
  included voxels, the parameter grid and the preprocessed model bank.
\<close>

definition save_tc_to_nii :: "prm list \<Rightarrow> ary2d \<Rightarrow> prm list \<Rightarrow> ary3d \<Rightarrow> error + fit_st" where
  "save_tc_to_nii aryIntGssPrm aryBetas aryMdlParams aryPrfTc =
     (case fnd_unq_rws aryIntGssPrm of
        (aryUnqRows, aryUnqInd) \<Rightarrow>
          derive_fit_tc aryIntGssPrm aryBetas aryMdlParams aryPrfTc aryUnqRows aryUnqInd)"

section \<open>The parameter grid: \<open>crt_mdl_prms\<close>\<close>

text \<open>\<open>n\<close> evenly spaced values from \<open>lo\<close> to \<open>hi\<close>, both included.\<close>

definition linspace :: "real \<Rightarrow> real \<Rightarrow> nat \<Rightarrow> real list" where
  "linspace lo hi n =
     (if n = 1 then [lo] else map (\<lambda>i. lo + real i * (hi - lo) / real (n - 1)) [0..<n])"

text \<open>
  Modelled from the spec: \<open>crt_mdl_prms\<close> of \<open>model_creation_utils\<close> is not among the
  sources.  The specification's Parameter Grid Builder takes "counts and inclusive ranges
  for the two spatial axes, count and inclusive range for size, target unit
  (pixel/degree), coordinate convention flag", returns the grid "as an ordered sequence
  with deterministic row order (outer loop over x, then y, then sigma)" and "fails with
  ConfigError if any count is non-positive or any range is degenerate (min > max)".  How
  the unit and the coordinate convention act on a row the specification leaves open:
  \<open>conv\<close> stands for it.
\<close>

definition crt_mdl_prms :: "(int \<times> int \<Rightarrow> string \<Rightarrow> string \<Rightarrow> prm \<Rightarrow> prm) \<Rightarrow> int \<times> int \<Rightarrow> int
    \<Rightarrow> real \<Rightarrow> real \<Rightarrow> int \<Rightarrow> real \<Rightarrow> real \<Rightarrow> int \<Rightarrow> real \<Rightarrow> real \<Rightarrow> string \<Rightarrow> string
    \<Rightarrow> error + prm list" where
  "crt_mdl_prms conv tplPngSize varNum1 varExtXmin varExtXmax varNum2 varExtYmin varExtYmax
       varNumPrfSizes varPrfStdMin varPrfStdMax kwUnt kwCrd =
     (if varNum1 \<le> 0 \<or> varNum2 \<le> 0 \<or> varNumPrfSizes \<le> 0 \<or>
         varExtXmax < varExtXmin \<or> varExtYmax < varExtYmin \<or> varPrfStdMax < varPrfStdMin
      then Inl ConfigError
      else Inr (map (conv tplPngSize kwUnt kwCrd)
                  (List.product (linspace varExtXmin varExtXmax (nat varNum1))
                     (List.product (linspace varExtYmin varExtYmax (nat varNum2))
                        (linspace varPrfStdMin varPrfStdMax (nat varNumPrfSizes))))))"

section \<open>The model bank: \<open>model_creation\<close>\<close>

subsection \<open>Arrays on disk\<close>

text \<open>An array as \<open>np.save\<close> writes it: its shape and its entries in row-major order.\<close>

record ndarray =
  shape :: "nat list"
  data :: "real list"

text \<open>The files are a map from paths to the arrays stored there.\<close>

type_synonym files = "string \<rightharpoonup> ndarray"

definition endswith :: "string \<Rightarrow> string \<Rightarrow> bool" where
  "endswith s suf \<longleftrightarrow> length suf \<le> length s \<and> drop (length s - length suf) s = suf"

text \<open>
  \<open>np.save(file, arr)\<close> appends \<open>.npy\<close> to a file name that does not end in it already.
\<close>

definition np_save :: "files \<Rightarrow> string \<Rightarrow> ndarray \<Rightarrow> files" where
  "np_save fs file arr = fs((if endswith file ''.npy'' then file else file @ ''.npy'') \<mapsto> arr)"

definition np_load :: "files \<Rightarrow> string \<Rightarrow> error + ndarray" where
  "np_load fs file = (case fs file of None \<Rightarrow> Inl FileNotFoundError | Some arr \<Rightarrow> Inr arr)"

subsection \<open>Rotation in the plane of the first two axes\<close>

text \<open>The consecutive pieces of length \<open>n\<close> of a list.\<close>

definition chunks :: "nat \<Rightarrow> 'a list \<Rightarrow> 'a list list" where
  "chunks n xs = map (\<lambda>i. take n (drop (i * n) xs)) [0..<length xs div n]"

text \<open>
  \<open>np.rot90(m, k)\<close> with the default axes \<open>(0, 1)\<close>.  An array of fewer than two
  dimensions raises \<open>ValueError\<close>.  For \<open>k % 4 = 1\<close> numpy returns
  \<open>transpose(flip(m, 1))\<close>, for \<open>2\<close> it returns \<open>flip(flip(m, 0), 1)\<close>, for \<open>3\<close> it returns
  \<open>flip(transpose(m), 1)\<close>, the transposition exchanging the first two axes.  The array
  is seen as \<open>n0\<close> rows of \<open>n1\<close> cells, a cell holding the entries along the remaining axes.
\<close>

definition np_rot90 :: "ndarray \<Rightarrow> int \<Rightarrow> error + ndarray" where
  "np_rot90 m k =
     (case shape m of
        n0 # n1 # rest \<Rightarrow>
          (let cells = chunks n1 (chunks (prod_list rest) (data m))
           in Inr (if k mod 4 = 0 then m
                   else if k mod 4 = 2 then
                     \<lparr>shape = n0 # n1 # rest, data = concat (concat (map rev (rev cells)))\<rparr>
                   else if k mod 4 = 1 then
                     \<lparr>shape = n1 # n0 # rest,
                      data = concat (concat (transpose (map rev cells)))\<rparr>
                   else
                     \<lparr>shape = n1 # n0 # rest,
                      data = concat (concat (map rev (transpose cells)))\<rparr>))
      | _ \<Rightarrow> Inl ValueError)"

subsection \<open>Configuration and the functions of \<open>model_creation_utils\<close>\<close>

text \<open>The fields of the configuration namespace that \<open>model_creation\<close> reads.\<close>

record config =
  lgcCrteMdl :: bool
  strSptExpInf :: string
  strTmpExpInf :: string
  strPathMdl :: string
  strKwCrd :: string
  varVslSpcSzeX :: real
  varVslSpcSzeY :: real
  varNum1 :: int
  varExtXmin :: real
  varExtXmax :: real
  varNum2 :: int
  varExtYmin :: real
  varExtYmax :: real
  varNumPrfSizes :: int
  varPrfStdMin :: real
  varPrfStdMax :: real
  varNumVol :: int
  varTr :: real
  varTmpOvsmpl :: int
  switchHrfSet :: int
  varPar :: int

text \<open>Python's \<open>int(x)\<close> on a number: truncation towards zero.\<close>

definition py_int :: "real \<Rightarrow> int" where
  "py_int x = (if 0 \<le> x then \<lfloor>x\<rfloor> else \<lceil>x\<rceil>)"

text \<open>
  \<open>crt_mdl_prms\<close>, \<open>crt_mdl_rsp\<close> and \<open>crt_prf_ftr_tc\<close> are imported from
  \<open>model_creation_utils\<close>, which is not among the sources.  \<open>model_creation\<close> takes them as
  parameters; each may raise.
\<close>

record utils =
  utl_crt_mdl_prms :: "int \<times> int \<Rightarrow> int \<Rightarrow> real \<Rightarrow> real \<Rightarrow> int \<Rightarrow> real \<Rightarrow> real
                        \<Rightarrow> int \<Rightarrow> real \<Rightarrow> real \<Rightarrow> string \<Rightarrow> string \<Rightarrow> error + ndarray"
  utl_crt_mdl_rsp :: "ndarray \<Rightarrow> int \<times> int \<Rightarrow> ndarray \<Rightarrow> int \<Rightarrow> error + ndarray"
  utl_crt_prf_ftr_tc :: "ndarray \<Rightarrow> ndarray \<Rightarrow> int \<Rightarrow> real \<Rightarrow> int \<Rightarrow> int \<Rightarrow> int \<times> int
                          \<Rightarrow> int \<Rightarrow> error + ndarray"

definition strErrMsg :: string where
  "strErrMsg = ''---Error: Dimensions of specified pRF time course '' @
               ''models do not agree with specified model parameters''"

subsection \<open>Creating or loading the model time courses\<close>

text \<open>
  \<open>model_creation\<close> on the files \<open>fs\<close>: the files it leaves and the array it returns or
  the exception it raises.  The messages it prints are left out.  \<open>vecPrfTcShp[0]\<close> and
  \<open>vecPrfTcShp[-1]\<close> raise \<open>IndexError\<close> on the empty shape of a zero-dimensional array.
\<close>

definition model_creation :: "utils \<Rightarrow> config \<Rightarrow> files \<Rightarrow> files \<times> (error + ndarray)" where
  "model_creation utl cfg fs =
     (if lgcCrteMdl cfg then
        (case np_load fs (strSptExpInf cfg) of
           Inl e \<Rightarrow> (fs, Inl e)
         | Inr aryLoaded \<Rightarrow>
        (case np_rot90 aryLoaded 3 of
           Inl e \<Rightarrow> (fs, Inl e)
         | Inr arySptExpInf \<Rightarrow>
        (case np_load fs (strTmpExpInf cfg) of
           Inl e \<Rightarrow> (fs, Inl e)
         | Inr aryTmpExpInf \<Rightarrow>
        (case utl_crt_mdl_prms utl
                (py_int (varVslSpcSzeX cfg), py_int (varVslSpcSzeY cfg)) (varNum1 cfg)
                (varExtXmin cfg) (varExtXmax cfg) (varNum2 cfg) (varExtYmin cfg)
                (varExtYmax cfg) (varNumPrfSizes cfg) (varPrfStdMin cfg) (varPrfStdMax cfg)
                ''pix'' (strKwCrd cfg) of
           Inl e \<Rightarrow> (fs, Inl e)
         | Inr aryMdlParams \<Rightarrow>
        (case utl_crt_mdl_rsp utl arySptExpInf
                (py_int (varVslSpcSzeX cfg), py_int (varVslSpcSzeY cfg)) aryMdlParams
                (varPar cfg) of
           Inl e \<Rightarrow> (fs, Inl e)
         | Inr aryMdlRsp \<Rightarrow>
        (case utl_crt_prf_ftr_tc utl aryMdlRsp aryTmpExpInf (varNumVol cfg) (varTr cfg)
                (varTmpOvsmpl cfg) (switchHrfSet cfg)
                (py_int (varVslSpcSzeX cfg), py_int (varVslSpcSzeY cfg)) (varPar cfg) of
           Inl e \<Rightarrow> (fs, Inl e)
         | Inr aryPrfTc \<Rightarrow>
             (np_save (np_save fs (strPathMdl cfg) aryPrfTc)
                      (strPathMdl cfg @ ''_params'') aryMdlParams,
              Inr aryPrfTc)))))))
      else
        (case np_load fs (strPathMdl cfg @ ''.npy'') of
           Inl e \<Rightarrow> (fs, Inl e)
         | Inr aryPrfTc \<Rightarrow>
             (let vecPrfTcShp = shape aryPrfTc
              in if vecPrfTcShp = [] then (fs, Inl IndexError)
                 else if int (hd vecPrfTcShp)
                           = varNum1 cfg * varNum2 cfg * varNumPrfSizes cfg \<and>
                         int (last vecPrfTcShp) = varNumVol cfg
                      then (fs, Inr aryPrfTc)
                      else (fs, Inl (AssertionError strErrMsg)))))"

section \<open>Worked examples\<close>

text \<open>
  The scenario of the specification: a grid of 2 x 2 x 1 models, three voxels of which the
  first two won with row 0 of the grid and the third with row 3, every weight 1, and a
  model bank with one kernel and two volumes.
\<close>

definition exa_grid :: "prm list" where
  "exa_grid = [(0, 0, 2), (0, 1, 2), (1, 0, 2), (1, 1, 2)]"

definition exa_prm :: "prm list" where
  "exa_prm = [(0, 0, 2), (0, 0, 2), (1, 1, 2)]"

definition exa_betas :: ary2d where
  "exa_betas = \<lparr>ncol = 1, rows = [[1], [1], [1]]\<rparr>"

definition exa_bank :: ary3d where
  "exa_bank = \<lparr>dim1 = 1, dim2 = 2, mats = [[[1, 2]], [[3, 4]], [[5, 6]], [[7, 8]]]\<rparr>"

text \<open>
  A run of \<open>model_creation\<close>: a spatial condition array of two rows and three columns,
  and stand-ins for the functions of \<open>model_creation_utils\<close> that hand their first array
  on, so that the array the response function was given is the one returned.
\<close>

definition exa_spt :: ndarray where
  "exa_spt = \<lparr>shape = [2, 3], data = [1, 2, 3, 4, 5, 6]\<rparr>"

definition exa_params :: ndarray where
  "exa_params = \<lparr>shape = [3, 3], data = [0, 0, 1, 1, 0, 1, 2, 0, 1]\<rparr>"

definition exa_files :: files where
  "exa_files = [''spt.npy'' \<mapsto> exa_spt, ''tmp.npy'' \<mapsto> \<lparr>shape = [1], data = [0]\<rparr>]"

definition exa_utl :: utils where
  "exa_utl =
     \<lparr>utl_crt_mdl_prms = (\<lambda>_ _ _ _ _ _ _ _ _ _ _ _. Inr exa_params),
      utl_crt_mdl_rsp = (\<lambda>ary _ _ _. Inr ary),
      utl_crt_prf_ftr_tc = (\<lambda>ary _ _ _ _ _ _ _. Inr ary)\<rparr>"

definition exa_cfg :: config where
  "exa_cfg =
     \<lparr>lgcCrteMdl = True, strSptExpInf = ''spt.npy'', strTmpExpInf = ''tmp.npy'',
      strPathMdl = ''mdl'', strKwCrd = ''crt'', varVslSpcSzeX = 2, varVslSpcSzeY = 3,
      varNum1 = 3, varExtXmin = 0, varExtXmax = 2, varNum2 = 1, varExtYmin = 0,
      varExtYmax = 0, varNumPrfSizes = 1, varPrfStdMin = 1, varPrfStdMax = 1,
      varNumVol = 2, varTr = 1, varTmpOvsmpl = 1, switchHrfSet = 1, varPar = 1\<rparr>"

section \<open>Properties of the fit reconstruction\<close>

subsection \<open>Auxiliary facts\<close>

lemma np_where_map: "np_where (map P xs) = filter (\<lambda>i. P (xs ! i)) [0..<length xs]"
  unfolding np_where_def by (auto intro: filter_cong)

lemma filter_upt_Cons:
  "filter Q [0..<n] = i # is \<Longrightarrow> i < n \<and> Q i \<and> (\<forall>j<i. \<not> Q j)"
proof (induction n arbitrary: "is")
  case 0
  then show ?case by simp
next
  case (Suc n)
  show ?case
  proof (cases "filter Q [0..<n]")
    case Nil
    then have "\<forall>j<n. \<not> Q j" by (auto simp: filter_empty_conv)
    with Suc.prems Nil show ?thesis by (auto split: if_splits)
  next
    case (Cons a as)
    with Suc.prems have "filter Q [0..<n] = i # as" by (auto split: if_splits)
    from Suc.IH [OF this] show ?thesis by auto
  qed
qed

lemma filter_upt_hd:
  "i < n \<Longrightarrow> Q i \<Longrightarrow> (\<forall>j<i. \<not> Q j) \<Longrightarrow> \<exists>is. filter Q [0..<n] = i # is"
proof -
  assume a: "i < n" "Q i" "\<forall>j<i. \<not> Q j"
  then have "filter Q [0..<n] \<noteq> []" by (auto simp: filter_empty_conv)
  then obtain k ks where k: "filter Q [0..<n] = k # ks" by (cases "filter Q [0..<n]") auto
  from filter_upt_Cons [OF k] a have "k = i"
    by (metis linorder_neqE_nat)
  with k show ?thesis by auto
qed

lemma find_mdl_Inr:
  "find_mdl g p = Inr (Some i) \<longleftrightarrow>
     i < length g \<and> isclose_all (g ! i) p \<and> (\<forall>j<i. \<not> isclose_all (g ! j) p)"
proof
  assume "find_mdl g p = Inr (Some i)"
  then obtain ks where "filter (\<lambda>i. isclose_all (g ! i) p) [0..<length g] = i # ks"
    by (auto simp: find_mdl_def np_where_map split: list.splits)
  from filter_upt_Cons [OF this] show "i < length g \<and> isclose_all (g ! i) p \<and> (\<forall>j<i. \<not> isclose_all (g ! j) p)" .
next
  assume "i < length g \<and> isclose_all (g ! i) p \<and> (\<forall>j<i. \<not> isclose_all (g ! j) p)"
  then have "\<exists>ks. filter (\<lambda>i. isclose_all (g ! i) p) [0..<length g] = i # ks"
    by (intro filter_upt_hd) auto
  then show "find_mdl g p = Inr (Some i)"
    by (auto simp: find_mdl_def np_where_map)
qed

lemma find_mdl_Inl:
  "find_mdl g p = Inl e \<longleftrightarrow> e = IndexError \<and> (\<forall>r\<in>set g. \<not> isclose_all r p)"
proof -
  have "filter (\<lambda>i. isclose_all (g ! i) p) [0..<length g] = [] \<longleftrightarrow>
        (\<forall>r\<in>set g. \<not> isclose_all r p)"
    unfolding filter_empty_conv set_upt
    by (metis atLeastLessThan_iff in_set_conv_nth zero_le)
  then show ?thesis
    by (cases "filter (\<lambda>i. isclose_all (g ! i) p) [0..<length g]")
       (auto simp: find_mdl_def np_where_map)
qed

lemma nth_mask_incr:
  "length lgc = length vec \<Longrightarrow> v < length vec \<Longrightarrow>
   mask_incr lgc vec ! v = (if lgc ! v then vec ! v + 1 else vec ! v)"
  by (simp add: mask_incr_def)

lemma length_mask_incr: "length lgc = length vec \<Longrightarrow> length (mask_incr lgc vec) = length vec"
  by (simp add: mask_incr_def)

lemma length_mask_assign: "length (mask_assign lgc ary new) = length ary"
  by (induction lgc ary new rule: mask_assign.induct) auto

lemma mask_assign_select:
  "length lgc = length ary \<Longrightarrow> length lgc = length src \<Longrightarrow> v < length ary \<Longrightarrow>
   mask_assign lgc ary (map f (mask_select lgc src)) ! v = (if lgc ! v then f (src ! v) else ary ! v)"
proof (induction lgc arbitrary: ary src v)
  case Nil
  then show ?case by simp
next
  case (Cons b lgc)
  then obtain x ary' y src' where [simp]: "ary = x # ary'" "src = y # src'"
    by (cases ary; cases src) auto
  from Cons show ?case
    by (cases b; cases v) (auto simp: mask_select_def)
qed


lemma find_mdl_not_None: "find_mdl g p \<noteq> Inr None"
  by (simp add: find_mdl_def split: list.splits)

lemma fit_row_Inr:
  assumes "fit_row B G P U i p st = Inr st'"
  shows "\<exists>m. find_mdl G p = Inr (Some m) \<and> m < length (mats P) \<and>
           length U = length (vecVxlTst st) \<and> length U = length (rows B) \<and>
           ncol B = dim1 P \<and>
           vecVxlTst st' = mask_incr (map (\<lambda>u. u = i) U) (vecVxlTst st) \<and>
           aryFitTc st' = mask_assign (map (\<lambda>u. u = i) U) (aryFitTc st)
              (map (dot_row (dim2 P) (mats P ! m)) (mask_select (map (\<lambda>u. u = i) U) (rows B))) \<and>
           stdout st' = (if i \<in> set U then stdout st else stdout st @ [''---No voxel found''])"
proof -
  from assms obtain lgcMdl where f: "find_mdl G p = Inr lgcMdl"
    by (cases "find_mdl G p") (auto simp: fit_row_def fit_body_def Let_def)
  with find_mdl_not_None [of G p] obtain m where m: "lgcMdl = Some m"
    by (cases lgcMdl) auto
  from assms f m show ?thesis
    by (auto simp: fit_row_def fit_body_def Let_def np_dot_def list_all_iff
             split: sum.splits if_splits)
qed

lemma fit_row_succeeds:
  assumes "find_mdl G p = Inr (Some m)" "m < length (mats P)"
    "length U = length (vecVxlTst st)" "length U = length (rows B)" "ncol B = dim1 P"
  shows "\<exists>st'. fit_row B G P U i p st = Inr st'"
  using assms by (simp add: fit_row_def fit_body_def Let_def np_dot_def)

lemma fit_loop_Inr:
  assumes "fit_loop B G P U i rs st = Inr st'"
    and "length (aryFitTc st) = length (vecVxlTst st)"
  shows "length (vecVxlTst st') = length (vecVxlTst st) \<and>
         length (aryFitTc st') = length (vecVxlTst st) \<and>
         (rs \<noteq> [] \<longrightarrow> length U = length (vecVxlTst st) \<and> length U = length (rows B) \<and>
                     ncol B = dim1 P) \<and>
         (\<forall>k<length rs. \<exists>m. find_mdl G (rs ! k) = Inr (Some m) \<and> m < length (mats P)) \<and>
         (\<forall>v<length (vecVxlTst st).
            vecVxlTst st' ! v =
              vecVxlTst st ! v + (if i \<le> U ! v \<and> U ! v < i + length rs then 1 else 0)) \<and>
         (\<forall>v<length (vecVxlTst st).
            if i \<le> U ! v \<and> U ! v < i + length rs
            then \<forall>m. find_mdl G (rs ! (U ! v - i)) = Inr (Some m) \<longrightarrow>
                   aryFitTc st' ! v = dot_row (dim2 P) (mats P ! m) (rows B ! v)
            else aryFitTc st' ! v = aryFitTc st ! v) \<and>
         set (stdout st') = set (stdout st) \<union>
            (if \<exists>k<length rs. i + k \<notin> set U then {''---No voxel found''} else {})"
  using assms
proof (induction rs arbitrary: i st)
  case Nil
  then show ?case by auto
next
  case (Cons p rs)
  from Cons.prems(1) obtain st1 where
    r: "fit_row B G P U i p st = Inr st1" and l: "fit_loop B G P U (Suc i) rs st1 = Inr st'"
    by (auto split: sum.splits)
  from fit_row_Inr [OF r] obtain m where
    m: "find_mdl G p = Inr (Some m)" "m < length (mats P)" and
    len: "length U = length (vecVxlTst st)" "length U = length (rows B)" "ncol B = dim1 P" and
    vec: "vecVxlTst st1 = mask_incr (map (\<lambda>u. u = i) U) (vecVxlTst st)" and
    fit: "aryFitTc st1 = mask_assign (map (\<lambda>u. u = i) U) (aryFitTc st)
              (map (dot_row (dim2 P) (mats P ! m)) (mask_select (map (\<lambda>u. u = i) U) (rows B)))" and
    out: "stdout st1 = (if i \<in> set U then stdout st else stdout st @ [''---No voxel found''])"
    by blast
  have len1: "length (vecVxlTst st1) = length (vecVxlTst st)"
    using vec len by (simp add: length_mask_incr)
  have lenf1: "length (aryFitTc st1) = length (vecVxlTst st1)"
    using fit len1 Cons.prems(2) by (simp add: length_mask_assign)
  note IH = Cons.IH [OF l lenf1, unfolded len1]
  have vec1: "vecVxlTst st1 ! v = (if U ! v = i then vecVxlTst st ! v + 1 else vecVxlTst st ! v)"
    if "v < length (vecVxlTst st)" for v
    using that vec len by (simp add: nth_mask_incr)
  have fit1: "aryFitTc st1 ! v =
      (if U ! v = i then dot_row (dim2 P) (mats P ! m) (rows B ! v) else aryFitTc st ! v)"
    if "v < length (vecVxlTst st)" for v
    using that fit len Cons.prems(2) by (simp add: mask_assign_select)
  have A: "\<forall>k<length (p # rs). \<exists>m. find_mdl G ((p # rs) ! k) = Inr (Some m) \<and> m < length (mats P)"
  proof (intro allI impI)
    fix k assume "k < length (p # rs)"
    then show "\<exists>m. find_mdl G ((p # rs) ! k) = Inr (Some m) \<and> m < length (mats P)"
      using m IH by (cases k) auto
  qed
  have B: "\<forall>v<length (vecVxlTst st).
            vecVxlTst st' ! v =
              vecVxlTst st ! v + (if i \<le> U ! v \<and> U ! v < i + length (p # rs) then 1 else 0)"
    using IH vec1 by auto
  have C: "\<forall>v<length (vecVxlTst st).
            if i \<le> U ! v \<and> U ! v < i + length (p # rs)
            then \<forall>m. find_mdl G ((p # rs) ! (U ! v - i)) = Inr (Some m) \<longrightarrow>
                   aryFitTc st' ! v = dot_row (dim2 P) (mats P ! m) (rows B ! v)
            else aryFitTc st' ! v = aryFitTc st ! v"
  proof (intro allI impI)
    fix v assume v: "v < length (vecVxlTst st)"
    from IH v have ih: "if Suc i \<le> U ! v \<and> U ! v < Suc i + length rs
            then \<forall>m. find_mdl G (rs ! (U ! v - Suc i)) = Inr (Some m) \<longrightarrow>
                   aryFitTc st' ! v = dot_row (dim2 P) (mats P ! m) (rows B ! v)
            else aryFitTc st' ! v = aryFitTc st1 ! v" by blast
    show "if i \<le> U ! v \<and> U ! v < i + length (p # rs)
            then \<forall>m. find_mdl G ((p # rs) ! (U ! v - i)) = Inr (Some m) \<longrightarrow>
                   aryFitTc st' ! v = dot_row (dim2 P) (mats P ! m) (rows B ! v)
            else aryFitTc st' ! v = aryFitTc st ! v"
    proof (cases "U ! v = i")
      case True
      with ih fit1 [OF v] m show ?thesis by simp
    next
      case False
      show ?thesis
      proof (cases "Suc i \<le> U ! v \<and> U ! v < Suc i + length rs")
        case True
        then have "(p # rs) ! (U ! v - i) = rs ! (U ! v - Suc i)"
          by (simp add: nth_Cons')
        with True ih show ?thesis by auto
      next
        case F2: False
        with False have "\<not> (i \<le> U ! v \<and> U ! v < i + length (p # rs))" by auto
        with F2 ih fit1 [OF v] False show ?thesis by simp
      qed
    qed
  qed
  have "(\<exists>k<length (p # rs). i + k \<notin> set U) \<longleftrightarrow>
        i \<notin> set U \<or> (\<exists>k<length rs. Suc i + k \<notin> set U)"
    by (auto simp: less_Suc_eq_0_disj)
  then have D: "set (stdout st') = set (stdout st) \<union>
            (if \<exists>k<length (p # rs). i + k \<notin> set U then {''---No voxel found''} else {})"
    using IH out by auto
  from IH len A B C D show ?case by simp
qed

lemma fit_loop_succeeds:
  assumes "\<forall>p\<in>set rs. \<exists>m. find_mdl G p = Inr (Some m) \<and> m < length (mats P)"
    "length U = length (vecVxlTst st)" "length U = length (rows B)" "ncol B = dim1 P"
  shows "\<exists>st'. fit_loop B G P U i rs st = Inr st'"
  using assms
proof (induction rs arbitrary: i st)
  case Nil
  then show ?case by simp
next
  case (Cons p rs)
  from Cons.prems obtain m where m: "find_mdl G p = Inr (Some m)" "m < length (mats P)" by auto
  from fit_row_succeeds [OF m Cons.prems(2-4)] obtain st1 where
    r: "fit_row B G P U i p st = Inr st1" by blast
  from fit_row_Inr [OF r] Cons.prems(2) have "length U = length (vecVxlTst st1)"
    by (auto simp: length_mask_incr)
  from Cons.IH [OF _ this Cons.prems(3,4)] Cons.prems(1) r show ?case by auto
qed

lemma sum_list_le_one:
  fixes xs :: "nat list"
  assumes "\<forall>x\<in>set xs. x \<le> 1"
  shows "sum_list xs \<le> length xs \<and> (length xs = sum_list xs \<longleftrightarrow> (\<forall>x\<in>set xs. x = 1))"
  using assms
proof (induction xs)
  case Nil
  then show ?case by simp
next
  case (Cons x xs)
  then have "x = 0 \<or> x = 1" by auto
  with Cons show ?case by auto
qed

lemma count_list_upt: "count_list [0..<n] k = (if k < n then 1 else 0)"
  by (induction n) auto

lemma fit_init_simps:
  "length (aryFitTc (fit_init W P)) = length (vecVxlTst (fit_init W P))"
  "length (vecVxlTst (fit_init W P)) = length W"
  "v < length W \<Longrightarrow> vecVxlTst (fit_init W P) ! v = 0"
  "stdout (fit_init W P) = []"
  by (simp_all add: fit_init_def)

text \<open>
  From zeros, a voxel is counted once if its inverse index is the index of a distinct row,
  and not at all otherwise.
\<close>

lemma fit_loop_counts:
  assumes "fit_loop B G P U 0 R (fit_init W P) = Inr st"
  shows "length (vecVxlTst st) = length W"
    and "\<forall>v<length W. vecVxlTst st ! v = (if U ! v < length R then 1 else 0)"
  using fit_loop_Inr [OF assms fit_init_simps(1)] fit_init_simps(2,3) by auto

lemma visit_assert_iff:
  assumes "fit_loop B G P U 0 R (fit_init W P) = Inr st"
  shows "length (vecVxlTst st) = sum_list (vecVxlTst st)
           \<longleftrightarrow> (\<forall>v<length W. vecVxlTst st ! v = 1)"
proof -
  note c = fit_loop_counts [OF assms]
  from c have "\<forall>x\<in>set (vecVxlTst st). x \<le> 1"
    unfolding all_set_conv_all_nth by simp
  from sum_list_le_one [OF this]
  have "length (vecVxlTst st) = sum_list (vecVxlTst st) \<longleftrightarrow> (\<forall>x\<in>set (vecVxlTst st). x = 1)"
    by blast
  also have "\<dots> \<longleftrightarrow> (\<forall>v<length W. vecVxlTst st ! v = 1)"
    unfolding all_set_conv_all_nth c(1) ..
  finally show ?thesis .
qed

lemma derive_fit_tc_after_loop:
  assumes "fit_loop B G P U 0 R (fit_init W P) = Inr st"
  shows "derive_fit_tc W B G P R U =
           (if \<forall>v<length W. vecVxlTst st ! v = 1 then Inr st
            else Inl (AssertionError errMsg))"
  using assms visit_assert_iff [OF assms] by (simp add: derive_fit_tc_def)

lemma index_of_mem: "x \<in> set xs \<Longrightarrow> index_of xs x < length xs \<and> xs ! index_of xs x = x"
  by (induction xs) auto

lemma index_of_nth: "distinct xs \<Longrightarrow> i < length xs \<Longrightarrow> index_of xs (xs ! i) = i"
proof (induction xs arbitrary: i)
  case Nil
  then show ?case by simp
next
  case (Cons y ys)
  then show ?case by (cases i) auto
qed

lemma fnd_unq_rws_props:
  assumes "fnd_unq_rws W = (R, U)"
  shows "length U = length W" and "distinct R" and "set R = set W"
    and "\<forall>v<length W. U ! v < length R \<and> R ! (U ! v) = W ! v"
    and "\<forall>i<length R. \<exists>v<length W. U ! v = i"
proof -
  from assms have R: "R = remdups W" and U: "U = map (index_of R) W"
    by (auto simp: fnd_unq_rws_def Let_def)
  show "length U = length W" by (simp add: U)
  show d: "distinct R" by (simp add: R)
  show s: "set R = set W" by (simp add: R)
  show "\<forall>v<length W. U ! v < length R \<and> R ! (U ! v) = W ! v"
    using s by (simp add: U index_of_mem)
  show "\<forall>i<length R. \<exists>v<length W. U ! v = i"
  proof (intro allI impI)
    fix i assume i: "i < length R"
    then have "R ! i \<in> set W" using s by (metis nth_mem)
    then obtain v where v: "v < length W" "W ! v = R ! i" by (auto simp: in_set_conv_nth)
    then have "U ! v = i" using index_of_nth [OF d i] by (simp add: U)
    with v show "\<exists>v<length W. U ! v = i" by blast
  qed
qed

lemmas fit_eval = fit_row_def fit_body_def find_mdl_def np_where_def isclose_all_def np_isclose_def
  mask_incr_def mask_select_def np_dot_def dot_row_def fit_init_def derive_fit_tc_def
  save_tc_to_nii_def fnd_unq_rws_def Let_def upt_rec
  exa_grid_def exa_prm_def exa_betas_def exa_bank_def

subsection \<open>The visit check\<close>

text \<open>
  Claim C1.  While the loop runs over the distinct winning-parameter rows, entry \<open>v\<close> of the
  visit counter counts the rows whose mask selects voxel \<open>v\<close>.  Once the loop has run
  through all of them, the reconstruction fails with the \<open>AssertionError\<close> of the visit
  check (the specification's \<open>CoverageError\<close>) exactly when some voxel's count is not 1,
  and succeeds exactly when every voxel's count is 1.
\<close>

theorem visit_count_checked:
  assumes "fit_loop B G P U 0 R (fit_init W P) = Inr st"
  shows "length (vecVxlTst st) = length W \<and>
         (\<forall>v<length W. vecVxlTst st ! v = count_list [0..<length R] (U ! v)) \<and>
         (derive_fit_tc W B G P R U = Inl (AssertionError errMsg)
            \<longleftrightarrow> (\<exists>v<length W. vecVxlTst st ! v \<noteq> 1)) \<and>
         (derive_fit_tc W B G P R U = Inr st \<longleftrightarrow> (\<forall>v<length W. vecVxlTst st ! v = 1))"
proof -
  note c = fit_loop_counts [OF assms]
  from c(2) have "\<forall>v<length W. vecVxlTst st ! v = count_list [0..<length R] (U ! v)"
    by (simp add: count_list_upt)
  with c(1) derive_fit_tc_after_loop [OF assms] show ?thesis by auto
qed

text \<open>
  With an inverse index that points past the distinct rows for the third voxel, that voxel
  is never visited, the second distinct row has no voxel, and the check fails.
\<close>

theorem visit_count_checked_witness:
  "fit_loop exa_betas exa_grid exa_bank [0, 0, 5] 0 [(0, 0, 2), (1, 1, 2)]
       (fit_init exa_prm exa_bank)
     = Inr \<lparr>vecVxlTst = [1, 1, 0], aryFitTc = [[1, 2], [1, 2], [0, 0]],
            stdout = [''---No voxel found'']\<rparr> \<and>
   derive_fit_tc exa_prm exa_betas exa_grid exa_bank [(0, 0, 2), (1, 1, 2)] [0, 0, 5]
     = Inl (AssertionError errMsg)"
proof -
  have l: "fit_loop exa_betas exa_grid exa_bank [0, 0, 5] 0 [(0, 0, 2), (1, 1, 2)]
       (fit_init exa_prm exa_bank)
     = Inr \<lparr>vecVxlTst = [1, 1, 0], aryFitTc = [[1, 2], [1, 2], [0, 0]],
            stdout = [''---No voxel found'']\<rparr>"
    by code_simp
  have "\<exists>v<length exa_prm.
          vecVxlTst \<lparr>vecVxlTst = [1, 1, 0], aryFitTc = [[1, 2], [1, 2], [0, 0]],
                     stdout = [''---No voxel found'']\<rparr> ! v \<noteq> 1"
    by (rule exI [of _ 2]) (simp add: exa_prm_def)
  with visit_count_checked [OF l] l show ?thesis by blast
qed

subsection \<open>The fitted time course of a voxel\<close>

text \<open>
  Claim C3.  For every voxel in the index set of a distinct winning-parameter row, the
  row of the fitted time courses is the product of the voxel's weight vector with the
  model time courses of the matched grid row, summed over the kernels:
  \<open>aryFitTc[v, t] = sum over k of aryBetas[v, k] * aryPrfTc[m, k, t]\<close>.
\<close>

theorem fitted_row:
  assumes "derive_fit_tc W B G P R U = Inr st"
    and "i < length R" and "v < length W" and "U ! v = i"
    and "find_mdl G (R ! i) = Inr (Some m)"
  shows "aryFitTc st ! v = dot_row (dim2 P) (mats P ! m) (rows B ! v) \<and>
         length (aryFitTc st ! v) = dim2 P \<and>
         (\<forall>t<dim2 P. aryFitTc st ! v ! t =
            (\<Sum>k<min (length (rows B ! v)) (length (mats P ! m)).
               rows B ! v ! k * mats P ! m ! k ! t))"
proof -
  from assms(1) have l: "fit_loop B G P U 0 R (fit_init W P) = Inr st"
    by (auto simp: derive_fit_tc_def split: sum.splits if_splits)
  from fit_loop_Inr [OF l fit_init_simps(1)] fit_init_simps(2) assms(2-5)
  have a: "aryFitTc st ! v = dot_row (dim2 P) (mats P ! m) (rows B ! v)"
    by auto
  have s: "sum_list (map f (zip xs ys)) = (\<Sum>k<min (length xs) (length ys). f (xs ! k, ys ! k))"
    for f :: "real \<times> real list \<Rightarrow> real" and xs ys
  proof -
    have "sum_list (map f (zip xs ys)) = (\<Sum>k<length (zip xs ys). f (zip xs ys ! k))"
      by (simp add: sum_list_sum_nth atLeast0LessThan)
    then show ?thesis by simp
  qed
  show ?thesis
    unfolding a by (simp add: dot_row_def s)
qed

theorem fitted_row_witness:
  "derive_fit_tc exa_prm exa_betas exa_grid exa_bank [(0, 0, 2), (1, 1, 2)] [0, 0, 1]
     = Inr \<lparr>vecVxlTst = [1, 1, 1], aryFitTc = [[1, 2], [1, 2], [7, 8]], stdout = []\<rparr> \<and>
   find_mdl exa_grid ([(0, 0, 2), (1, 1, 2)] ! 1) = Inr (Some 3) \<and>
   [[1, 2], [1, 2], [7, 8]] ! 2 = dot_row (dim2 exa_bank) (mats exa_bank ! 3) (rows exa_betas ! 2)"
proof -
  have d: "derive_fit_tc exa_prm exa_betas exa_grid exa_bank [(0, 0, 2), (1, 1, 2)] [0, 0, 1]
     = Inr \<lparr>vecVxlTst = [1, 1, 1], aryFitTc = [[1, 2], [1, 2], [7, 8]], stdout = []\<rparr>"
    by (simp add: fit_eval)
  have m: "find_mdl exa_grid ([(0, 0, 2), (1, 1, 2)] ! 1) = Inr (Some 3)"
    by (simp add: fit_eval)
  from fitted_row [OF d _ _ _ m, of 2] d m show ?thesis
    by (simp add: exa_prm_def)
qed

subsection \<open>The groups of voxels\<close>

text \<open>
  Claim C9.  The groups that the inverse index of \<open>fnd_unq_rws\<close> defines partition the
  voxels: every voxel is selected by the mask of exactly one distinct row, and no mask
  is all false.  If every lookup of the loop finds a row of the grid that the model bank
  has, and the weights fit the voxels and the bank, the loop runs through, every entry of
  the visit counter is 1 after it, "No voxel found" is not printed, and the
  reconstruction succeeds.
\<close>

theorem groups_partition:
  assumes unq: "fnd_unq_rws W = (R, U)"
    and lookups: "\<forall>p\<in>set W. \<exists>m. find_mdl G p = Inr (Some m) \<and> m < length (mats P)"
    and shapes: "length (rows B) = length W" "ncol B = dim1 P"
  shows "(\<forall>v<length W. \<exists>!i. i < length R \<and> map (\<lambda>u. u = i) U ! v) \<and>
         (\<forall>i<length R. \<not> list_all Not (map (\<lambda>u. u = i) U)) \<and>
         (\<exists>st. fit_loop B G P U 0 R (fit_init W P) = Inr st \<and>
               save_tc_to_nii W B G P = Inr st \<and>
               (\<forall>v<length W. vecVxlTst st ! v = 1) \<and>
               ''---No voxel found'' \<notin> set (stdout st))"
proof -
  note p = fnd_unq_rws_props [OF unq]
  have part: "\<forall>v<length W. \<exists>!i. i < length R \<and> map (\<lambda>u. u = i) U ! v"
    using p(1,4) by auto
  have nonempty: "\<forall>i<length R. \<not> list_all Not (map (\<lambda>u. u = i) U)"
  proof (intro allI impI)
    fix i assume "i < length R"
    with p(5) obtain v where "v < length W" "U ! v = i" by blast
    with p(1) have "i \<in> set U" by (metis nth_mem)
    then show "\<not> list_all Not (map (\<lambda>u. u = i) U)" by (auto simp: list_all_iff)
  qed
  from lookups p(3) have "\<forall>p\<in>set R. \<exists>m. find_mdl G p = Inr (Some m) \<and> m < length (mats P)"
    by simp
  from fit_loop_succeeds [OF this, of U "fit_init W P" B 0] p(1) fit_init_simps(2) shapes
  obtain st where st: "fit_loop B G P U 0 R (fit_init W P) = Inr st" by auto
  from fit_loop_Inr [OF st fit_init_simps(1)] fit_init_simps(2,4)
  have out: "set (stdout st) =
      (if \<exists>k<length R. 0 + k \<notin> set U then {''---No voxel found''} else {})"
    by auto
  from fit_loop_counts(2) [OF st] p(4) have one: "\<forall>v<length W. vecVxlTst st ! v = 1"
    by simp
  have "\<not> (\<exists>k<length R. k \<notin> set U)"
    using p(5) p(1) by (metis nth_mem)
  with out have quiet: "''---No voxel found'' \<notin> set (stdout st)" by simp
  from derive_fit_tc_after_loop [OF st] one have "derive_fit_tc W B G P R U = Inr st"
    by simp
  then have "save_tc_to_nii W B G P = Inr st"
    by (simp add: save_tc_to_nii_def unq)
  with part nonempty st one quiet show ?thesis by blast
qed

theorem groups_partition_witness:
  "fnd_unq_rws exa_prm = ([(0, 0, 2), (1, 1, 2)], [0, 0, 1]) \<and>
   find_mdl exa_grid (0, 0, 2) = Inr (Some 0) \<and> find_mdl exa_grid (1, 1, 2) = Inr (Some 3) \<and>
   (\<exists>st. save_tc_to_nii exa_prm exa_betas exa_grid exa_bank = Inr st \<and>
         vecVxlTst st = [1, 1, 1] \<and> ''---No voxel found'' \<notin> set (stdout st))"
proof -
  have u: "fnd_unq_rws exa_prm = ([(0, 0, 2), (1, 1, 2)], [0, 0, 1])"
    by (simp add: fit_eval)
  have m: "find_mdl exa_grid (0, 0, 2) = Inr (Some 0)" "find_mdl exa_grid (1, 1, 2) = Inr (Some 3)"
    by (simp_all add: fit_eval)
  have l: "\<forall>p\<in>set exa_prm. \<exists>m. find_mdl exa_grid p = Inr (Some m) \<and> m < length (mats exa_bank)"
    using m by (simp add: exa_prm_def exa_bank_def)
  have s: "length (rows exa_betas) = length exa_prm" "ncol exa_betas = dim1 exa_bank"
    by (simp_all add: exa_betas_def exa_prm_def exa_bank_def)
  from groups_partition [OF u l s] obtain st where
    st: "save_tc_to_nii exa_prm exa_betas exa_grid exa_bank = Inr st"
      "''---No voxel found'' \<notin> set (stdout st)"
    by blast
  have "save_tc_to_nii exa_prm exa_betas exa_grid exa_bank
     = Inr \<lparr>vecVxlTst = [1, 1, 1], aryFitTc = [[1, 2], [1, 2], [7, 8]], stdout = []\<rparr>"
    by (simp add: fit_eval)
  with st have "vecVxlTst st = [1, 1, 1]" by auto
  with u m st show ?thesis by blast
qed

subsection \<open>The grid lookup\<close>

lemma isclose_all_iff:
  "isclose_all (a1, a2, a3) (b1, b2, b3) \<longleftrightarrow>
     \<bar>a1 - b1\<bar> \<le> 1 / 10000 + \<bar>b1\<bar> / 100000 \<and>
     \<bar>a2 - b2\<bar> \<le> 1 / 10000 + \<bar>b2\<bar> / 100000 \<and>
     \<bar>a3 - b3\<bar> \<le> 1 / 10000 + \<bar>b3\<bar> / 100000"
  by (simp add: isclose_all_def np_isclose_def)

lemma fit_row_no_match:
  "find_mdl G p = Inl e \<Longrightarrow> fit_row B G P U k p st = Inl e"
  by (simp add: fit_row_def fit_body_def Let_def)

text \<open>
  Claim C2, as amended.  The lookup compares a distinct winning-parameter row with every
  grid row by \<open>np.isclose\<close> on all three components, that is within \<open>1e-4\<close> plus
  \<open>1e-5\<close> times the magnitude of the winning parameter.  It raises \<open>IndexError\<close> (the
  specification's \<open>NoMatchError\<close>), which ends the reconstruction, exactly when no grid row
  matches.  Otherwise it returns the index of the first matching row: several matching
  rows are not detected.
\<close>

theorem lookup_first_match:
  "(find_mdl G p = Inl IndexError \<longleftrightarrow> (\<forall>r\<in>set G. \<not> isclose_all r p)) \<and>
   (\<forall>i. find_mdl G p = Inr (Some i) \<longleftrightarrow>
          i < length G \<and> isclose_all (G ! i) p \<and> (\<forall>j<i. \<not> isclose_all (G ! j) p)) \<and>
   ((\<forall>r\<in>set G. \<not> isclose_all r p) \<longrightarrow> fit_row B G P U k p st = Inl IndexError) \<and>
   (isclose_all (a1, a2, a3) (b1, b2, b3) \<longleftrightarrow>
      \<bar>a1 - b1\<bar> \<le> 1 / 10000 + \<bar>b1\<bar> / 100000 \<and>
      \<bar>a2 - b2\<bar> \<le> 1 / 10000 + \<bar>b2\<bar> / 100000 \<and>
      \<bar>a3 - b3\<bar> \<le> 1 / 10000 + \<bar>b3\<bar> / 100000)"
proof -
  have 1: "find_mdl G p = Inl IndexError \<longleftrightarrow> (\<forall>r\<in>set G. \<not> isclose_all r p)"
    by (simp add: find_mdl_Inl)
  have 2: "\<forall>i. find_mdl G p = Inr (Some i) \<longleftrightarrow>
          i < length G \<and> isclose_all (G ! i) p \<and> (\<forall>j<i. \<not> isclose_all (G ! j) p)"
    by (simp add: find_mdl_Inr)
  have 3: "(\<forall>r\<in>set G. \<not> isclose_all r p) \<longrightarrow> fit_row B G P U k p st = Inl IndexError"
    using 1 fit_row_no_match by blast
  from 1 2 3 isclose_all_iff show ?thesis by blast
qed

theorem lookup_first_match_witness:
  "isclose_all ([(0, 0, 1), (1 / 20000, 0, 1)] ! 0) (0, 0, 1) \<and>
   isclose_all ([(0, 0, 1), (1 / 20000, 0, 1)] ! 1) (0, 0, 1) \<and>
   find_mdl [(0, 0, 1), (1 / 20000, 0, 1)] (0, 0, 1) = Inr (Some 0)"
proof -
  have c: "isclose_all ([(0, 0, 1), (1 / 20000, 0, 1)] ! 0) (0, 0, 1)"
    "isclose_all ([(0, 0, 1), (1 / 20000, 0, 1)] ! 1) (0, 0, 1)"
    by (simp_all add: isclose_all_iff)
  from lookup_first_match [of "[(0, 0, 1), (1 / 20000, 0, 1)]" "(0, 0, 1)"]
  have "find_mdl [(0, 0, 1), (1 / 20000, 0, 1)] (0, 0, 1) = Inr (Some 0) \<longleftrightarrow>
      0 < length [(0, 0, 1), (1 / 20000, 0, 1) :: prm] \<and>
      isclose_all ([(0, 0, 1), (1 / 20000, 0, 1)] ! 0) (0, 0, 1) \<and>
      (\<forall>j<0. \<not> isclose_all ([(0, 0, 1), (1 / 20000, 0, 1)] ! j) (0, 0, 1))"
    by blast
  with c show ?thesis by simp
qed

text \<open>
  Two distinct grid rows match the winning parameters of the one voxel; the lookup takes
  the first and the reconstruction succeeds with it.
\<close>

theorem lookup_two_matches_counterexample:
  "isclose_all (0, 0, 1) (0, 0, 1) \<and> isclose_all (1 / 20000, 0, 1) (0, 0, 1) \<and>
   find_mdl [(0, 0, 1), (1 / 20000, 0, 1)] (0, 0, 1) = Inr (Some 0) \<and>
   save_tc_to_nii [(0, 0, 1)] \<lparr>ncol = 1, rows = [[1]]\<rparr> [(0, 0, 1), (1 / 20000, 0, 1)]
       \<lparr>dim1 = 1, dim2 = 2, mats = [[[1, 2]], [[3, 4]]]\<rparr>
     = Inr \<lparr>vecVxlTst = [1], aryFitTc = [[1, 2]], stdout = []\<rparr>"
  by (simp add: fit_eval)

text \<open>
  Claim C4, as amended.  A winning-parameter row whose every component is less than
  \<open>1e-5\<close> away from a grid row matches that row, so the lookup succeeds; it returns the
  first matching row, which is that row or an earlier one.  A winning-parameter row that
  differs from every grid row, in some component, by more than \<open>1e-4\<close> plus \<open>1e-5\<close> times
  the magnitude of its own component raises \<open>IndexError\<close>.
\<close>

theorem lookup_tolerance:
  "(i < length G \<and> G ! i = (a1, a2, a3) \<and>
      \<bar>a1 - b1\<bar> < 1 / 100000 \<and> \<bar>a2 - b2\<bar> < 1 / 100000 \<and> \<bar>a3 - b3\<bar> < 1 / 100000
    \<longrightarrow> isclose_all (G ! i) (b1, b2, b3) \<and>
        (\<exists>j\<le>i. find_mdl G (b1, b2, b3) = Inr (Some j) \<and> isclose_all (G ! j) (b1, b2, b3))) \<and>
   ((\<forall>(c1, c2, c3)\<in>set G.
        1 / 10000 + \<bar>b1\<bar> / 100000 < \<bar>c1 - b1\<bar> \<or>
        1 / 10000 + \<bar>b2\<bar> / 100000 < \<bar>c2 - b2\<bar> \<or>
        1 / 10000 + \<bar>b3\<bar> / 100000 < \<bar>c3 - b3\<bar>)
    \<longrightarrow> find_mdl G (b1, b2, b3) = Inl IndexError)"
proof (intro conjI impI)
  assume a: "i < length G \<and> G ! i = (a1, a2, a3) \<and>
      \<bar>a1 - b1\<bar> < 1 / 100000 \<and> \<bar>a2 - b2\<bar> < 1 / 100000 \<and> \<bar>a3 - b3\<bar> < 1 / 100000"
  have "0 \<le> \<bar>b1\<bar> / 100000" "0 \<le> \<bar>b2\<bar> / 100000" "0 \<le> \<bar>b3\<bar> / 100000" by simp_all
  with a have "\<bar>a1 - b1\<bar> \<le> 1 / 10000 + \<bar>b1\<bar> / 100000 \<and>
     \<bar>a2 - b2\<bar> \<le> 1 / 10000 + \<bar>b2\<bar> / 100000 \<and>
     \<bar>a3 - b3\<bar> \<le> 1 / 10000 + \<bar>b3\<bar> / 100000"
    by linarith
  with a show c: "isclose_all (G ! i) (b1, b2, b3)"
    by (simp only: isclose_all_iff)
  from a have "G ! i \<in> set G" by (metis nth_mem)
  with c have "G ! i \<in> set G" "isclose_all (G ! i) (b1, b2, b3)" by blast+
  then have "find_mdl G (b1, b2, b3) \<noteq> Inl IndexError"
    unfolding find_mdl_Inl by blast
  moreover have "find_mdl G (b1, b2, b3) \<noteq> Inr None"
    by (rule find_mdl_not_None)
  ultimately obtain j where j: "find_mdl G (b1, b2, b3) = Inr (Some j)"
    by (cases "find_mdl G (b1, b2, b3)") (auto simp: find_mdl_Inl)
  then have "isclose_all (G ! j) (b1, b2, b3)" "\<forall>k<j. \<not> isclose_all (G ! k) (b1, b2, b3)"
    unfolding find_mdl_Inr by simp_all
  with c have "j \<le> i" "isclose_all (G ! j) (b1, b2, b3)"
    by (auto simp: not_less [symmetric])
  with j show "\<exists>j\<le>i. find_mdl G (b1, b2, b3) = Inr (Some j) \<and> isclose_all (G ! j) (b1, b2, b3)"
    by blast
next
  assume "\<forall>(c1, c2, c3)\<in>set G.
        1 / 10000 + \<bar>b1\<bar> / 100000 < \<bar>c1 - b1\<bar> \<or>
        1 / 10000 + \<bar>b2\<bar> / 100000 < \<bar>c2 - b2\<bar> \<or>
        1 / 10000 + \<bar>b3\<bar> / 100000 < \<bar>c3 - b3\<bar>"
  then have "\<forall>r\<in>set G. \<not> isclose_all r (b1, b2, b3)"
    by (auto simp: isclose_all_iff)
  then show "find_mdl G (b1, b2, b3) = Inl IndexError"
    by (simp add: find_mdl_Inl)
qed

theorem lookup_tolerance_witness:
  "isclose_all (exa_grid ! 3) (200001 / 200000, 1, 2) \<and>
   find_mdl exa_grid (200001 / 200000, 1, 2) = Inr (Some 3) \<and>
   find_mdl exa_grid (3, 3, 3) = Inl IndexError"
proof -
  have "3 < length exa_grid \<and> exa_grid ! 3 = (1, 1, 2) \<and>
      \<bar>1 - 200001 / 200000\<bar> < (1 / 100000 :: real) \<and> \<bar>1 - 1\<bar> < (1 / 100000 :: real) \<and>
      \<bar>2 - 2\<bar> < (1 / 100000 :: real)"
    by (simp add: exa_grid_def)
  with lookup_tolerance [of 3 exa_grid 1 1 2 "200001 / 200000" 1 2]
  have a: "isclose_all (exa_grid ! 3) (200001 / 200000, 1, 2)" by blast
  have b: "find_mdl exa_grid (200001 / 200000, 1, 2) = Inr (Some 3)"
    by (simp add: fit_eval)
  have "\<forall>(c1, c2, c3)\<in>set exa_grid.
        1 / 10000 + \<bar>3\<bar> / 100000 < \<bar>c1 - 3\<bar> \<or>
        1 / 10000 + \<bar>3\<bar> / 100000 < \<bar>c2 - 3\<bar> \<or>
        1 / 10000 + \<bar>3\<bar> / 100000 < \<bar>c3 - 3\<bar>"
    by (simp add: exa_grid_def)
  with lookup_tolerance [of 0 exa_grid 0 0 0 3 3 3]
  have "find_mdl exa_grid (3, 3, 3) = Inl IndexError" by blast
  with a b show ?thesis by blast
qed

text \<open>
  Every component of the winning parameters is \<open>0.005\<close> away from the one grid row,
  fifty times \<open>1e-4\<close>, and the row is matched all the same.
\<close>

theorem lookup_tolerance_counterexample:
  "(1 / 10000 :: real) < \<bar>1000 - 200001 / 200\<bar> \<and>
   find_mdl [(1000, 1000, 1000)] (200001 / 200, 200001 / 200, 200001 / 200) = Inr (Some 0)"
  by (simp add: fit_eval)

text \<open>What one pass of the body has printed, whether it ends or raises.\<close>

lemma fit_body_out:
  "fst (fit_body B G P U i p st) =
     (if i \<in> set U then stdout st else stdout st @ [''---No voxel found''])"
proof (cases "find_mdl G p")
  case (Inl e)
  then show ?thesis by (auto simp: fit_body_def Let_def list_all_iff)
next
  case (Inr lgcMdl)
  with find_mdl_not_None [of G p] obtain m where "lgcMdl = Some m"
    by (cases lgcMdl) auto
  with Inr show ?thesis by (auto simp: fit_body_def Let_def list_all_iff)
qed

lemma fit_body_stdout:
  assumes "fit_body B G P U i p st = (out, Inr st')"
  shows "stdout st' = out"
  using assms
  by (auto simp: fit_body_def Let_def split: sum.splits option.splits if_splits)

lemma fit_loop_out_subset:
  "set (fit_loop_out B G P U i rs st) \<subseteq> set (stdout st) \<union> {''---No voxel found''}"
proof (induction rs arbitrary: i st)
  case Nil
  show ?case by auto
next
  case (Cons p rs)
  obtain out r where b: "fit_body B G P U i p st = (out, r)"
    by (cases "fit_body B G P U i p st")
  with fit_body_out [of B G P U i p st]
  have o: "set out \<subseteq> set (stdout st) \<union> {''---No voxel found''}"
    by (auto split: if_splits)
  show ?case
  proof (cases r)
    case (Inl e)
    with b o show ?thesis by simp
  next
    case (Inr st')
    with b fit_body_stdout have "stdout st' = out" by blast
    with Cons.IH [of "Suc i" st'] o b Inr show ?thesis by auto
  qed
qed

text \<open>A loop that runs through has printed what its last state records.\<close>

lemma fit_loop_out_Inr:
  "fit_loop B G P U i rs st = Inr st' \<Longrightarrow> fit_loop_out B G P U i rs st = stdout st'"
proof (induction rs arbitrary: i st)
  case Nil
  then show ?case by simp
next
  case (Cons p rs)
  obtain out r where b: "fit_body B G P U i p st = (out, r)"
    by (cases "fit_body B G P U i p st")
  with Cons.prems obtain st1 where
    r: "r = Inr st1" and l: "fit_loop B G P U (Suc i) rs st1 = Inr st'"
    by (auto simp: fit_row_def split: sum.splits)
  from Cons.IH [OF l] b r show ?case by simp
qed

text \<open>
  Claim C10.  The lookup expression yields the index of a grid row, one that matches, or
  raises \<open>IndexError\<close>, which it does when no grid row matches.  Its value is never
  \<open>None\<close>: for every input, whether the loop runs through or raises, the branch behind
  \<open>lgcMdl is None\<close> is not taken and "No model found" is not among what has been printed.
\<close>

theorem lookup_index_or_error:
  "((\<exists>i. find_mdl G p = Inr (Some i) \<and> i < length G \<and> isclose_all (G ! i) p) \<or>
    (find_mdl G p = Inl IndexError \<and> \<not> (\<exists>r\<in>set G. isclose_all r p))) \<and>
   find_mdl G p \<noteq> Inr None \<and>
   ''---No model found'' \<notin> set (fit_loop_out B G P U 0 R (fit_init W P))"
proof (intro conjI)
  show "(\<exists>i. find_mdl G p = Inr (Some i) \<and> i < length G \<and> isclose_all (G ! i) p) \<or>
    (find_mdl G p = Inl IndexError \<and> \<not> (\<exists>r\<in>set G. isclose_all r p))"
  proof (cases "find_mdl G p")
    case (Inl e)
    then show ?thesis by (simp add: find_mdl_Inl)
  next
    case (Inr lgcMdl)
    with find_mdl_not_None [of G p] obtain i where i: "lgcMdl = Some i"
      by (cases lgcMdl) auto
    with Inr have "i < length G \<and> isclose_all (G ! i) p" by (simp add: find_mdl_Inr)
    with Inr i show ?thesis by blast
  qed
  show "find_mdl G p \<noteq> Inr None"
    by (rule find_mdl_not_None)
  from fit_loop_out_subset [of B G P U 0 R "fit_init W P"]
  have "set (fit_loop_out B G P U 0 R (fit_init W P)) \<subseteq> {''---No voxel found''}"
    by (simp add: fit_init_simps(4))
  then show "''---No model found'' \<notin> set (fit_loop_out B G P U 0 R (fit_init W P))"
    by auto
qed

text \<open>
  A run that raises: the second distinct row has no voxel and matches no grid row.
\<close>

theorem lookup_index_or_error_witness:
  "find_mdl exa_grid (1, 0, 2) = Inr (Some 2) \<and>
   find_mdl exa_grid (5, 5, 5) = Inl IndexError \<and>
   fit_loop exa_betas exa_grid exa_bank [0, 0, 0] 0 [(0, 0, 2), (5, 5, 5)]
       (fit_init exa_prm exa_bank) = Inl IndexError \<and>
   fit_loop_out exa_betas exa_grid exa_bank [0, 0, 0] 0 [(0, 0, 2), (5, 5, 5)]
       (fit_init exa_prm exa_bank) = [''---No voxel found'']"
proof -
  have n: "\<not> (\<exists>i. find_mdl exa_grid (5, 5, 5) = Inr (Some i) \<and> i < length exa_grid \<and>
      isclose_all (exa_grid ! i) (5, 5, 5))"
    by (simp add: fit_eval)
  from lookup_index_or_error [of exa_grid "(5, 5, 5)"] n
  have "find_mdl exa_grid (5, 5, 5) = Inl IndexError" by blast
  moreover have "find_mdl exa_grid (1, 0, 2) = Inr (Some 2)" by (simp add: fit_eval)
  moreover have "fit_loop exa_betas exa_grid exa_bank [0, 0, 0] 0 [(0, 0, 2), (5, 5, 5)]
       (fit_init exa_prm exa_bank) = Inl IndexError"
    by code_simp
  moreover have "fit_loop_out exa_betas exa_grid exa_bank [0, 0, 0] 0 [(0, 0, 2), (5, 5, 5)]
       (fit_init exa_prm exa_bank) = [''---No voxel found'']"
    by code_simp
  ultimately show ?thesis by simp
qed

section \<open>Properties of the model bank\<close>

subsection \<open>Auxiliary facts\<close>

lemma np_load_save_same:
  "\<not> endswith file ''.npy'' \<Longrightarrow> np_load (np_save fs file arr) (file @ ''.npy'') = Inr arr"
  by (simp add: np_load_def np_save_def)

lemma np_load_save_other:
  "\<not> endswith file ''.npy'' \<Longrightarrow> file @ ''.npy'' \<noteq> other \<Longrightarrow>
   np_load (np_save fs file arr) other = np_load fs other"
  by (simp add: np_load_def np_save_def)

lemma endswith_params: "\<not> endswith (base @ ''_params'') ''.npy''"
  by (simp add: endswith_def)

text \<open>What a run of the creating branch that returns has done.\<close>

lemma model_creation_created:
  assumes "lgcCrteMdl cfg" and "model_creation utl cfg fs = (fs', Inr aryPrfTc)"
  shows "\<exists>aryLoaded arySptExpInf aryTmpExpInf aryMdlParams aryMdlRsp.
           np_load fs (strSptExpInf cfg) = Inr aryLoaded \<and>
           np_rot90 aryLoaded 3 = Inr arySptExpInf \<and>
           np_load fs (strTmpExpInf cfg) = Inr aryTmpExpInf \<and>
           utl_crt_mdl_prms utl
               (py_int (varVslSpcSzeX cfg), py_int (varVslSpcSzeY cfg)) (varNum1 cfg)
               (varExtXmin cfg) (varExtXmax cfg) (varNum2 cfg) (varExtYmin cfg)
               (varExtYmax cfg) (varNumPrfSizes cfg) (varPrfStdMin cfg) (varPrfStdMax cfg)
               ''pix'' (strKwCrd cfg) = Inr aryMdlParams \<and>
           utl_crt_mdl_rsp utl arySptExpInf
               (py_int (varVslSpcSzeX cfg), py_int (varVslSpcSzeY cfg)) aryMdlParams
               (varPar cfg) = Inr aryMdlRsp \<and>
           utl_crt_prf_ftr_tc utl aryMdlRsp aryTmpExpInf (varNumVol cfg) (varTr cfg)
               (varTmpOvsmpl cfg) (switchHrfSet cfg)
               (py_int (varVslSpcSzeX cfg), py_int (varVslSpcSzeY cfg)) (varPar cfg)
             = Inr aryPrfTc \<and>
           fs' = np_save (np_save fs (strPathMdl cfg) aryPrfTc)
                   (strPathMdl cfg @ ''_params'') aryMdlParams"
  using assms by (auto simp: model_creation_def split: sum.splits)

lemma model_creation_loaded:
  assumes "\<not> lgcCrteMdl cfg" and "np_load fs (strPathMdl cfg @ ''.npy'') = Inr aryPrfTc"
  shows "model_creation utl cfg fs =
           (fs, if shape aryPrfTc = [] then Inl IndexError
                else if int (hd (shape aryPrfTc))
                          = varNum1 cfg * varNum2 cfg * varNumPrfSizes cfg \<and>
                        int (last (shape aryPrfTc)) = varNumVol cfg
                     then Inr aryPrfTc
                     else Inl (AssertionError strErrMsg))"
  using assms by (simp add: model_creation_def Let_def)

lemma np_rot90_3:
  assumes "np_rot90 m 3 = Inr r"
  shows "\<exists>n0 n1 rest. shape m = n0 # n1 # rest \<and> shape r = n1 # n0 # rest \<and>
           data r = concat (concat (map rev (transpose
                      (chunks n1 (chunks (prod_list rest) (data m))))))"
  using assms by (auto simp: np_rot90_def Let_def split: list.splits)

subsection \<open>Validation of a loaded model bank\<close>

text \<open>
  Claim C5.  When \<open>model_creation\<close> loads an existing model bank, it returns the loaded
  array only if its first dimension is \<open>varNum1 * varNum2 * varNumPrfSizes\<close> and its last
  dimension is \<open>varNumVol\<close>; if either differs, the load fails with the \<open>AssertionError\<close>
  of the shape check (the specification's \<open>ShapeMismatchError\<close>) and no array is returned.
\<close>

theorem load_validates_shape:
  assumes "\<not> lgcCrteMdl cfg"
    and "np_load fs (strPathMdl cfg @ ''.npy'') = Inr aryPrfTc"
    and "shape aryPrfTc \<noteq> []"
  shows "model_creation utl cfg fs =
           (fs, if int (hd (shape aryPrfTc)) = varNum1 cfg * varNum2 cfg * varNumPrfSizes cfg \<and>
                   int (last (shape aryPrfTc)) = varNumVol cfg
                then Inr aryPrfTc
                else Inl (AssertionError strErrMsg))"
  using model_creation_loaded [OF assms(1,2)] assms(3) by simp

text \<open>A bank of three models and two volumes, loaded where five volumes are configured.\<close>

theorem load_validates_shape_witness:
  "np_load [''mdl.npy'' \<mapsto> \<lparr>shape = [3, 1, 2], data = [1, 2, 3, 4, 5, 6]\<rparr>]
       (strPathMdl (exa_cfg\<lparr>lgcCrteMdl := False, varNumVol := 5\<rparr>) @ ''.npy'')
     = Inr \<lparr>shape = [3, 1, 2], data = [1, 2, 3, 4, 5, 6]\<rparr> \<and>
   model_creation exa_utl (exa_cfg\<lparr>lgcCrteMdl := False, varNumVol := 5\<rparr>)
       [''mdl.npy'' \<mapsto> \<lparr>shape = [3, 1, 2], data = [1, 2, 3, 4, 5, 6]\<rparr>]
     = ([''mdl.npy'' \<mapsto> \<lparr>shape = [3, 1, 2], data = [1, 2, 3, 4, 5, 6]\<rparr>],
        Inl (AssertionError strErrMsg))"
proof -
  have l: "np_load [''mdl.npy'' \<mapsto> \<lparr>shape = [3, 1, 2], data = [1, 2, 3, 4, 5, 6]\<rparr>]
       (strPathMdl (exa_cfg\<lparr>lgcCrteMdl := False, varNumVol := 5\<rparr>) @ ''.npy'')
     = Inr \<lparr>shape = [3, 1, 2], data = [1, 2, 3, 4, 5, 6]\<rparr>"
    by (simp add: np_load_def exa_cfg_def)
  have c: "\<not> lgcCrteMdl (exa_cfg\<lparr>lgcCrteMdl := False, varNumVol := 5\<rparr>)"
    by simp
  have s: "shape \<lparr>shape = [3, 1, 2], data = [1, 2, 3, 4, 5, 6]\<rparr> \<noteq> []"
    by simp
  from load_validates_shape [OF c l s, of exa_utl] l show ?thesis
    by (simp add: exa_cfg_def)
qed

subsection \<open>Saving and loading the model bank\<close>

text \<open>
  Claim C6, as amended.  A run of \<open>model_creation\<close> that creates the model bank saves the
  model time courses under the base path and the parameter grid under the base path with
  \<open>_params\<close> appended.  Provided the base path does not itself end in \<open>.npy\<close>, loading the
  base path with \<open>.npy\<close> appended then returns the saved time courses unchanged, the
  parameter grid is in the file of its own, and a run of \<open>model_creation\<close> that loads the
  model bank returns the saved time courses if their shape passes its validation.
\<close>

theorem bank_round_trip:
  assumes "lgcCrteMdl cfg"
    and "model_creation utl cfg fs = (fs', Inr aryPrfTc)"
    and "\<not> endswith (strPathMdl cfg) ''.npy''"
  shows "np_load fs' (strPathMdl cfg @ ''.npy'') = Inr aryPrfTc \<and>
         (\<exists>aryMdlParams. np_load fs' (strPathMdl cfg @ ''_params'' @ ''.npy'') = Inr aryMdlParams) \<and>
         model_creation utl (cfg\<lparr>lgcCrteMdl := False\<rparr>) fs' =
           (fs', if shape aryPrfTc = [] then Inl IndexError
                 else if int (hd (shape aryPrfTc))
                           = varNum1 cfg * varNum2 cfg * varNumPrfSizes cfg \<and>
                         int (last (shape aryPrfTc)) = varNumVol cfg
                      then Inr aryPrfTc
                      else Inl (AssertionError strErrMsg))"
proof -
  from model_creation_created [OF assms(1,2)] obtain aryMdlParams where
    fs': "fs' = np_save (np_save fs (strPathMdl cfg) aryPrfTc)
                   (strPathMdl cfg @ ''_params'') aryMdlParams"
    by blast
  have "(strPathMdl cfg @ ''_params'') @ ''.npy'' \<noteq> strPathMdl cfg @ ''.npy''"
    by simp
  from np_load_save_other [OF endswith_params this]
  have "np_load fs' (strPathMdl cfg @ ''.npy'')
      = np_load (np_save fs (strPathMdl cfg) aryPrfTc) (strPathMdl cfg @ ''.npy'')"
    unfolding fs' .
  with np_load_save_same [OF assms(3)]
  have a: "np_load fs' (strPathMdl cfg @ ''.npy'') = Inr aryPrfTc"
    by simp
  have b: "np_load fs' (strPathMdl cfg @ ''_params'' @ ''.npy'') = Inr aryMdlParams"
    unfolding fs' using np_load_save_same [OF endswith_params] by simp
  have "\<not> lgcCrteMdl (cfg\<lparr>lgcCrteMdl := False\<rparr>)"
    and "np_load fs' (strPathMdl (cfg\<lparr>lgcCrteMdl := False\<rparr>) @ ''.npy'') = Inr aryPrfTc"
    using a by simp_all
  from model_creation_loaded [OF this] a b show ?thesis by auto
qed

theorem bank_round_trip_witness:
  "snd (model_creation exa_utl exa_cfg exa_files)
     = Inr \<lparr>shape = [3, 2], data = [4, 1, 5, 2, 6, 3]\<rparr> \<and>
   np_load (fst (model_creation exa_utl exa_cfg exa_files)) (strPathMdl exa_cfg @ ''.npy'')
     = Inr \<lparr>shape = [3, 2], data = [4, 1, 5, 2, 6, 3]\<rparr> \<and>
   snd (model_creation exa_utl (exa_cfg\<lparr>lgcCrteMdl := False\<rparr>)
          (fst (model_creation exa_utl exa_cfg exa_files)))
     = Inr \<lparr>shape = [3, 2], data = [4, 1, 5, 2, 6, 3]\<rparr>"
proof -
  have s: "snd (model_creation exa_utl exa_cfg exa_files)
     = Inr \<lparr>shape = [3, 2], data = [4, 1, 5, 2, 6, 3]\<rparr>"
    by code_simp
  then have m: "model_creation exa_utl exa_cfg exa_files =
     (fst (model_creation exa_utl exa_cfg exa_files),
      Inr \<lparr>shape = [3, 2], data = [4, 1, 5, 2, 6, 3]\<rparr>)"
    by (metis prod.collapse)
  have c: "lgcCrteMdl exa_cfg"
    by (simp add: exa_cfg_def)
  have e: "\<not> endswith (strPathMdl exa_cfg) ''.npy''"
    by (simp add: exa_cfg_def endswith_def)
  have v: "shape \<lparr>shape = [3, 2], data = [4, 1, 5, 2, 6, 3 :: real]\<rparr> \<noteq> []"
    "int (hd (shape \<lparr>shape = [3, 2], data = [4, 1, 5, 2, 6, 3 :: real]\<rparr>))
       = varNum1 exa_cfg * varNum2 exa_cfg * varNumPrfSizes exa_cfg"
    "int (last (shape \<lparr>shape = [3, 2], data = [4, 1, 5, 2, 6, 3 :: real]\<rparr>))
       = varNumVol exa_cfg"
    by (simp_all add: exa_cfg_def)
  from bank_round_trip [OF c m e] v s show ?thesis by simp
qed

text \<open>
  With the base path \<open>mdl.npy\<close> the model time courses are saved in \<open>mdl.npy\<close> and looked
  for in \<open>mdl.npy.npy\<close>.
\<close>

theorem bank_round_trip_counterexample:
  "snd (model_creation exa_utl (exa_cfg\<lparr>strPathMdl := ''mdl.npy''\<rparr>) exa_files)
     = Inr \<lparr>shape = [3, 2], data = [4, 1, 5, 2, 6, 3]\<rparr> \<and>
   snd (model_creation exa_utl (exa_cfg\<lparr>strPathMdl := ''mdl.npy'', lgcCrteMdl := False\<rparr>)
          (fst (model_creation exa_utl (exa_cfg\<lparr>strPathMdl := ''mdl.npy''\<rparr>) exa_files)))
     = Inl FileNotFoundError"
  by code_simp

subsection \<open>The rotation of the spatial conditions\<close>

lemma nth_concat_uniform:
  assumes "\<forall>ys\<in>set xss. length ys = n" and "i < length xss" and "j < n"
  shows "concat xss ! (i * n + j) = xss ! i ! j"
  using assms
proof (induction xss arbitrary: i)
  case Nil
  then show ?case by simp
next
  case (Cons ys xss)
  show ?case
  proof (cases i)
    case 0
    with Cons.prems show ?thesis by (simp add: nth_append)
  next
    case (Suc i')
    with Cons.prems have "concat xss ! (i' * n + j) = xss ! i' ! j"
      by (intro Cons.IH) auto
    with Cons.prems Suc show ?thesis by (simp add: nth_append)
  qed
qed

lemma length_concat_uniform:
  "\<forall>ys\<in>set xss. length ys = n \<Longrightarrow> length (concat xss) = length xss * n"
  by (induction xss) auto

lemma chunks_props:
  assumes "length xs = k * n" and "0 < n"
  shows "length (chunks n xs) = k"
    and "\<forall>i<k. chunks n xs ! i = take n (drop (i * n) xs)"
    and "\<forall>ys\<in>set (chunks n xs). length ys = n"
proof -
  show l: "length (chunks n xs) = k"
    using assms by (simp add: chunks_def)
  show n: "\<forall>i<k. chunks n xs ! i = take n (drop (i * n) xs)"
    using assms by (simp add: chunks_def)
  have "length (chunks n xs ! i) = n" if "i < k" for i
  proof -
    from that have "Suc i \<le> k" by simp
    then have "Suc i * n \<le> k * n" by (rule mult_le_mono1)
    then have "i * n + n \<le> length xs" using assms by simp
    with n that show ?thesis by simp
  qed
  with l show "\<forall>ys\<in>set (chunks n xs). length ys = n"
    unfolding all_set_conv_all_nth by simp
qed

lemma chunks_nth_nth:
  assumes "length xs = k * n" and "i < k" and "c < n"
  shows "chunks n xs ! i ! c = xs ! (i * n + c)"
proof -
  from assms have n: "0 < n" by simp
  from assms(2) have "Suc i \<le> k" by simp
  then have "Suc i * n \<le> k * n" by (rule mult_le_mono1)
  then have "i * n + n \<le> length xs" using assms by simp
  with chunks_props(2) [OF assms(1) n] assms(2,3) show ?thesis by simp
qed

text \<open>
  Entry \<open>(i, j, c)\<close> of the array rotated with \<open>k = 3\<close> is entry \<open>(n0 - 1 - j, i, c)\<close> of the
  array given.
\<close>

lemma np_rot90_3_nth:
  assumes "np_rot90 m 3 = Inr r" and "shape m = n0 # n1 # rest"
    and "length (data m) = n0 * n1 * prod_list rest"
    and "i < n1" and "j < n0" and "c < prod_list rest"
  shows "shape r = n1 # n0 # rest"
    and "data r ! ((i * n0 + j) * prod_list rest + c)
           = data m ! (((n0 - 1 - j) * n1 + i) * prod_list rest + c)"
proof -
  define p where "p = prod_list rest"
  define cs where "cs = chunks p (data m)"
  define cells where "cells = chunks n1 cs"
  from assms(1,2) have rr: "r = \<lparr>shape = n1 # n0 # rest,
      data = concat (concat (map rev (transpose cells)))\<rparr>"
    by (auto simp: np_rot90_def Let_def cells_def cs_def p_def)
  then show "shape r = n1 # n0 # rest" by simp
  from rr have r: "data r = concat (concat (map rev (transpose cells)))" by simp
  from assms have p: "0 < p" and n1: "0 < n1" and n0: "0 < n0" by (auto simp: p_def)
  have lm: "length (data m) = (n0 * n1) * p" using assms(3) by (simp add: p_def)
  note cs = chunks_props [OF lm p, folded cs_def]
  from cs(1) have lcs: "length cs = n0 * n1" .
  note cells = chunks_props [OF lcs n1, folded cells_def]
  have cell: "cells ! a ! b = cs ! (a * n1 + b)" if "a < n0" "b < n1" for a b
    unfolding cells_def using chunks_nth_nth [OF lcs that] .
  have "cells = [] \<Longrightarrow> n1 = 0" using cells(1) n0 by auto
  moreover have "\<And>a. a < length cells \<Longrightarrow> length (cells ! a) = n1"
    using cells(3) by simp
  ultimately have tr: "transpose cells
      = map (\<lambda>i. map (\<lambda>a. cells ! a ! i) [0..<length cells]) [0..<n1]"
    by (rule transpose_rectangle)
  define Y where "Y = map rev (transpose cells)"
  have ly: "length Y = n1" by (simp add: Y_def tr)
  have yi: "Y ! i = rev (map (\<lambda>a. cells ! a ! i) [0..<n0])"
    using assms(4) by (simp add: Y_def tr cells(1))
  have yu: "\<forall>ys\<in>set Y. length ys = n0"
    by (auto simp: Y_def tr cells(1))
  have yij: "Y ! i ! j = cells ! (n0 - 1 - j) ! i"
    using assms(5) by (simp add: yi rev_nth)
  from assms(5) n0 have j': "n0 - 1 - j < n0" by simp
  have cy: "concat Y ! (i * n0 + j) = cs ! ((n0 - 1 - j) * n1 + i)"
    using nth_concat_uniform [OF yu, of i j] ly assms(4,5) yij cell [OF j' assms(4)]
    by simp
  have lcy: "length (concat Y) = n1 * n0"
    using length_concat_uniform [OF yu] ly by simp
  have "i * n0 + j < n1 * n0"
  proof -
    from assms(4) have "Suc i \<le> n1" by simp
    then have "Suc i * n0 \<le> n1 * n0" by (rule mult_le_mono1)
    with assms(5) show ?thesis by simp
  qed
  then have idx: "i * n0 + j < length (concat Y)" using lcy by simp
  have "set (concat Y) \<subseteq> set cs"
  proof
    fix x assume "x \<in> set (concat Y)"
    then obtain q where q: "q < length (concat Y)" "x = concat Y ! q"
      by (metis in_set_conv_nth)
    define a where "a = q div n0"
    define b where "b = q mod n0"
    from q lcy n0 have a: "a < n1" and b: "b < n0" and qab: "q = a * n0 + b"
      by (auto simp: a_def b_def less_mult_imp_div_less)
    have "Y ! a = rev (map (\<lambda>k. cells ! k ! a) [0..<n0])"
      using a by (simp add: Y_def tr cells(1))
    then have "Y ! a ! b = cells ! (n0 - 1 - b) ! a"
      using b by (simp add: rev_nth)
    moreover from b n0 have b': "n0 - 1 - b < n0" by simp
    ultimately have "x = cs ! ((n0 - 1 - b) * n1 + a)"
      using nth_concat_uniform [OF yu, of a b] ly a b q(2) qab cell [OF b' a] by simp
    moreover have "(n0 - 1 - b) * n1 + a < n0 * n1"
    proof -
      from b' have "Suc (n0 - 1 - b) \<le> n0" by simp
      then have "Suc (n0 - 1 - b) * n1 \<le> n0 * n1" by (rule mult_le_mono1)
      with a show ?thesis by simp
    qed
    ultimately show "x \<in> set cs" using lcs by simp
  qed
  with cs(3) have cu: "\<forall>ys\<in>set (concat Y). length ys = p" by blast
  have "(n0 - 1 - j) * n1 + i < n0 * n1"
  proof -
    from j' have "Suc (n0 - 1 - j) \<le> n0" by simp
    then have "Suc (n0 - 1 - j) * n1 \<le> n0 * n1" by (rule mult_le_mono1)
    with assms(4) show ?thesis by simp
  qed
  from chunks_nth_nth [OF lm this, of c] assms(6)
  have "cs ! ((n0 - 1 - j) * n1 + i) ! c = data m ! (((n0 - 1 - j) * n1 + i) * p + c)"
    by (simp add: cs_def p_def)
  with nth_concat_uniform [OF cu idx, of c] assms(6) cy
  have "concat (concat Y) ! ((i * n0 + j) * p + c)
      = data m ! (((n0 - 1 - j) * n1 + i) * p + c)"
    by (simp add: p_def)
  then show "data r ! ((i * n0 + j) * prod_list rest + c)
           = data m ! (((n0 - 1 - j) * n1 + i) * prod_list rest + c)"
    by (simp add: r Y_def p_def)
qed

text \<open>
  Claim C8.  When \<open>model_creation\<close> creates the model bank, the array of spatial
  conditions it loads is rotated once, by \<open>np.rot90\<close> with \<open>k = 3\<close> (90 degrees
  rightward: entry \<open>(i, j)\<close> of the rotated array is entry \<open>(n0 - 1 - j, i)\<close> of the loaded
  one), before the model responses are computed, and \<open>crt_mdl_rsp\<close> is given this rotated
  array.
\<close>

theorem rotated_once:
  assumes "lgcCrteMdl cfg" and "model_creation utl cfg fs = (fs', Inr aryPrfTc)"
  shows "\<exists>aryLoaded arySptExpInf aryTmpExpInf aryMdlParams aryMdlRsp n0 n1 rest.
           np_load fs (strSptExpInf cfg) = Inr aryLoaded \<and>
           np_rot90 aryLoaded 3 = Inr arySptExpInf \<and>
           shape aryLoaded = n0 # n1 # rest \<and> shape arySptExpInf = n1 # n0 # rest \<and>
           (length (data aryLoaded) = n0 * n1 * prod_list rest \<longrightarrow>
              (\<forall>i<n1. \<forall>j<n0. \<forall>c<prod_list rest.
                 data arySptExpInf ! ((i * n0 + j) * prod_list rest + c)
                   = data aryLoaded ! (((n0 - 1 - j) * n1 + i) * prod_list rest + c))) \<and>
           utl_crt_mdl_prms utl
               (py_int (varVslSpcSzeX cfg), py_int (varVslSpcSzeY cfg)) (varNum1 cfg)
               (varExtXmin cfg) (varExtXmax cfg) (varNum2 cfg) (varExtYmin cfg)
               (varExtYmax cfg) (varNumPrfSizes cfg) (varPrfStdMin cfg) (varPrfStdMax cfg)
               ''pix'' (strKwCrd cfg) = Inr aryMdlParams \<and>
           utl_crt_mdl_rsp utl arySptExpInf
               (py_int (varVslSpcSzeX cfg), py_int (varVslSpcSzeY cfg)) aryMdlParams
               (varPar cfg) = Inr aryMdlRsp \<and>
           np_load fs (strTmpExpInf cfg) = Inr aryTmpExpInf \<and>
           utl_crt_prf_ftr_tc utl aryMdlRsp aryTmpExpInf (varNumVol cfg) (varTr cfg)
               (varTmpOvsmpl cfg) (switchHrfSet cfg)
               (py_int (varVslSpcSzeX cfg), py_int (varVslSpcSzeY cfg)) (varPar cfg)
             = Inr aryPrfTc"
proof -
  from model_creation_created [OF assms] obtain aryLoaded arySptExpInf aryTmpExpInf
      aryMdlParams aryMdlRsp where
    run: "np_load fs (strSptExpInf cfg) = Inr aryLoaded"
      "np_rot90 aryLoaded 3 = Inr arySptExpInf"
      "np_load fs (strTmpExpInf cfg) = Inr aryTmpExpInf"
      "utl_crt_mdl_prms utl
           (py_int (varVslSpcSzeX cfg), py_int (varVslSpcSzeY cfg)) (varNum1 cfg)
           (varExtXmin cfg) (varExtXmax cfg) (varNum2 cfg) (varExtYmin cfg)
           (varExtYmax cfg) (varNumPrfSizes cfg) (varPrfStdMin cfg) (varPrfStdMax cfg)
           ''pix'' (strKwCrd cfg) = Inr aryMdlParams"
      "utl_crt_mdl_rsp utl arySptExpInf
           (py_int (varVslSpcSzeX cfg), py_int (varVslSpcSzeY cfg)) aryMdlParams
           (varPar cfg) = Inr aryMdlRsp"
      "utl_crt_prf_ftr_tc utl aryMdlRsp aryTmpExpInf (varNumVol cfg) (varTr cfg)
           (varTmpOvsmpl cfg) (switchHrfSet cfg)
           (py_int (varVslSpcSzeX cfg), py_int (varVslSpcSzeY cfg)) (varPar cfg)
         = Inr aryPrfTc"
    by blast
  from np_rot90_3 [OF run(2)] obtain n0 n1 rest where
    sh: "shape aryLoaded = n0 # n1 # rest" "shape arySptExpInf = n1 # n0 # rest"
    by blast
  have "length (data aryLoaded) = n0 * n1 * prod_list rest \<longrightarrow>
          (\<forall>i<n1. \<forall>j<n0. \<forall>c<prod_list rest.
             data arySptExpInf ! ((i * n0 + j) * prod_list rest + c)
               = data aryLoaded ! (((n0 - 1 - j) * n1 + i) * prod_list rest + c))"
    using np_rot90_3_nth(2) [OF run(2) sh(1)] by blast
  with run sh show ?thesis by blast
qed

text \<open>
  The stand-ins hand the array on that the response function was given, so the run returns
  it: the loaded two rows of three, turned into three rows of two.
\<close>

theorem rotated_once_witness:
  "np_load exa_files (strSptExpInf exa_cfg) = Inr exa_spt \<and>
   np_rot90 exa_spt 3 = Inr \<lparr>shape = [3, 2], data = [4, 1, 5, 2, 6, 3]\<rparr> \<and>
   snd (model_creation exa_utl exa_cfg exa_files)
     = Inr \<lparr>shape = [3, 2], data = [4, 1, 5, 2, 6, 3]\<rparr>"
proof -
  have s: "snd (model_creation exa_utl exa_cfg exa_files)
     = Inr \<lparr>shape = [3, 2], data = [4, 1, 5, 2, 6, 3]\<rparr>"
    by code_simp
  then have m: "model_creation exa_utl exa_cfg exa_files =
     (fst (model_creation exa_utl exa_cfg exa_files),
      Inr \<lparr>shape = [3, 2], data = [4, 1, 5, 2, 6, 3]\<rparr>)"
    by (metis prod.collapse)
  have c: "lgcCrteMdl exa_cfg"
    by (simp add: exa_cfg_def)
  have l: "np_load exa_files (strSptExpInf exa_cfg) = Inr exa_spt"
    by (simp add: np_load_def exa_files_def exa_cfg_def)
  from rotated_once [OF c m] obtain aryLoaded arySptExpInf aryMdlParams aryMdlRsp where
    r: "np_load exa_files (strSptExpInf exa_cfg) = Inr aryLoaded"
      "np_rot90 aryLoaded 3 = Inr arySptExpInf"
      "utl_crt_mdl_rsp exa_utl arySptExpInf
           (py_int (varVslSpcSzeX exa_cfg), py_int (varVslSpcSzeY exa_cfg)) aryMdlParams
           (varPar exa_cfg) = Inr aryMdlRsp"
      "utl_crt_prf_ftr_tc exa_utl aryMdlRsp \<lparr>shape = [1], data = [0]\<rparr> (varNumVol exa_cfg)
           (varTr exa_cfg) (varTmpOvsmpl exa_cfg) (switchHrfSet exa_cfg)
           (py_int (varVslSpcSzeX exa_cfg), py_int (varVslSpcSzeY exa_cfg)) (varPar exa_cfg)
         = Inr \<lparr>shape = [3, 2], data = [4, 1, 5, 2, 6, 3]\<rparr>"
    by (auto simp: np_load_def exa_files_def exa_cfg_def)
  from r(1) l have "aryLoaded = exa_spt" by simp
  moreover from r(3,4) have "arySptExpInf = \<lparr>shape = [3, 2], data = [4, 1, 5, 2, 6, 3]\<rparr>"
    by (simp add: exa_utl_def)
  ultimately have "np_rot90 exa_spt 3 = Inr \<lparr>shape = [3, 2], data = [4, 1, 5, 2, 6, 3]\<rparr>"
    using r(2) by simp
  with l s show ?thesis by simp
qed

section \<open>Properties of the parameter grid\<close>

lemma length_linspace: "length (linspace lo hi n) = n"
  by (simp add: linspace_def)

lemma div_mod_index:
  fixes a b m :: nat
  assumes "b < m"
  shows "(a * m + b) div m = a" and "(a * m + b) mod m = b"
  using assms by simp_all

text \<open>
  Claim C7.  For positive counts and ranges with \<open>min \<le> max\<close>, the parameter grid has
  \<open>numX * numY * numSigma\<close> rows, and row \<open>(i * numY + j) * numSigma + k\<close> holds the
  \<open>i\<close>-th x position, the \<open>j\<close>-th y position and the \<open>k\<close>-th size: the grid is a function
  of the configuration, so equal inputs give the same rows in the same order, and the index
  of a row is the identity of its model.
\<close>

theorem grid_rows:
  assumes "0 < n1" and "0 < n2" and "0 < n3"
    and "xmin \<le> xmax" and "ymin \<le> ymax" and "smin \<le> smax"
  shows "\<exists>grid. crt_mdl_prms conv tpl n1 xmin xmax n2 ymin ymax n3 smin smax kwUnt kwCrd
                  = Inr grid \<and>
           length grid = nat (n1 * n2 * n3) \<and>
           (\<forall>i<nat n1. \<forall>j<nat n2. \<forall>k<nat n3.
              grid ! ((i * nat n2 + j) * nat n3 + k)
                = conv tpl kwUnt kwCrd
                    (linspace xmin xmax (nat n1) ! i, linspace ymin ymax (nat n2) ! j,
                     linspace smin smax (nat n3) ! k))"
proof -
  define X where "X = linspace xmin xmax (nat n1)"
  define Y where "Y = linspace ymin ymax (nat n2)"
  define S where "S = linspace smin smax (nat n3)"
  define grid where "grid = map (conv tpl kwUnt kwCrd) (List.product X (List.product Y S))"
  have lX: "length X = nat n1" and lY: "length Y = nat n2" and lS: "length S = nat n3"
    by (simp_all add: X_def Y_def S_def length_linspace)
  have g: "crt_mdl_prms conv tpl n1 xmin xmax n2 ymin ymax n3 smin smax kwUnt kwCrd = Inr grid"
    using assms by (simp add: crt_mdl_prms_def grid_def X_def Y_def S_def)
  have len: "length grid = nat (n1 * n2 * n3)"
    using assms by (simp add: grid_def lX lY lS nat_mult_distrib)
  have row: "grid ! ((i * nat n2 + j) * nat n3 + k) = conv tpl kwUnt kwCrd (X ! i, Y ! j, S ! k)"
    if "i < nat n1" "j < nat n2" "k < nat n3" for i j k
  proof -
    define q where "q = j * nat n3 + k"
    have q: "q < nat n2 * nat n3"
    proof -
      from that(2) have "Suc j \<le> nat n2" by simp
      then have "Suc j * nat n3 \<le> nat n2 * nat n3" by (rule mult_le_mono1)
      with that(3) show ?thesis by (simp add: q_def)
    qed
    have idx: "(i * nat n2 + j) * nat n3 + k = i * (nat n2 * nat n3) + q"
      by (simp add: q_def algebra_simps)
    have lt: "i * (nat n2 * nat n3) + q < nat n1 * (nat n2 * nat n3)"
    proof -
      from that(1) have "Suc i \<le> nat n1" by simp
      then have "Suc i * (nat n2 * nat n3) \<le> nat n1 * (nat n2 * nat n3)"
        by (rule mult_le_mono1)
      with q show ?thesis by simp
    qed
    have "List.product Y S ! q = (Y ! j, S ! k)"
      using q that(3) div_mod_index [OF that(3), of j]
      by (simp add: product_nth lY lS q_def)
    moreover have "List.product X (List.product Y S) ! (i * (nat n2 * nat n3) + q)
        = (X ! i, List.product Y S ! q)"
      using lt div_mod_index [OF q, of i] by (simp add: product_nth lX lY lS)
    ultimately show ?thesis
      using lt by (simp add: grid_def idx lX lY lS)
  qed
  from g len row show ?thesis
    unfolding X_def Y_def S_def by blast
qed

text \<open>The grid of the scenario: two x positions, two y positions, one size.\<close>

theorem grid_rows_witness:
  "crt_mdl_prms (\<lambda>tpl kwUnt kwCrd row. row) (2, 2) 2 0 1 2 0 1 1 2 2 ''deg'' ''crt''
     = Inr exa_grid \<and>
   length exa_grid = nat (2 * 2 * 1)"
proof -
  have e: "crt_mdl_prms (\<lambda>tpl kwUnt kwCrd row. row) (2, 2) 2 0 1 2 0 1 1 2 2 ''deg'' ''crt''
     = Inr exa_grid"
    by code_simp
  have "(0::int) < 2" "(0::int) < 2" "(0::int) < 1" "(0::real) \<le> 1" "(0::real) \<le> 1"
    "(2::real) \<le> 2"
    by simp_all
  from grid_rows [OF this, of "\<lambda>tpl kwUnt kwCrd row. row" "(2, 2)" "''deg''" "''crt''"]
  obtain grid where
    "crt_mdl_prms (\<lambda>tpl kwUnt kwCrd row. row) (2, 2) 2 0 1 2 0 1 1 2 2 ''deg'' ''crt''
       = Inr grid"
    "length grid = nat (2 * 2 * 1)"
    by blast
  with e show ?thesis by simp
qed

end
